theory Spec2Isabelle
  imports Main "HOL-Library.Word"
begin

section \<open>C strings in a line buffer\<close>

text \<open>
  The bootloader keeps a command line in a \<open>char\<close> array and hands out pointers into it.
  A buffer is a \<open>string\<close> (a list of bytes), a pointer into it is an offset, and the
  C string that starts at an offset runs up to the first NUL byte.
\<close>

definition NUL :: char where
  "NUL = CHR 0x00"

definition CR :: char where
  "CR = CHR 0x0D"

definition LF :: char where
  "LF = CHR 0x0A"

definition c_str :: "string \<Rightarrow> nat \<Rightarrow> string" where
  "c_str buf off = takeWhile (\<lambda>c. c \<noteq> NUL) (drop off buf)"

definition strlen :: "string \<Rightarrow> nat \<Rightarrow> nat" where
  "strlen buf off = length (c_str buf off)"

text \<open>
  \<open>memchr(buf + off, c, n)\<close>: the offset of the first byte equal to \<open>c\<close> among the
  \<open>n\<close> bytes starting at \<open>off\<close>, or NULL (\<open>None\<close>).
\<close>

definition memchr :: "string \<Rightarrow> nat \<Rightarrow> char \<Rightarrow> nat \<Rightarrow> nat option" where
  "memchr buf off c n =
     (let seg = take n (drop off buf)
      in if c \<in> set seg then Some (off + length (takeWhile (\<lambda>x. x \<noteq> c) seg)) else None)"

text \<open>
  \<open>strncmp(s1, s2, n) == 0\<close> on two C strings given by their contents: the first
  \<open>n\<close> bytes agree, a string that ends earlier being different from one that goes on.
\<close>

definition strncmp_eq :: "string \<Rightarrow> string \<Rightarrow> nat \<Rightarrow> bool" where
  "strncmp_eq s1 s2 n = (take n s1 = take n s2)"

definition tolower :: "char \<Rightarrow> char" where
  "tolower c =
     (if (65 :: nat) \<le> of_char c \<and> of_char c \<le> (90 :: nat)
      then char_of (of_char c + (32 :: nat)) else c)"

text \<open>\<open>strlwr(cmd)\<close> lower-cases the C string at the start of the buffer in place.\<close>

definition strlwr :: "string \<Rightarrow> string" where
  "strlwr buf = map tolower (takeWhile (\<lambda>c. c \<noteq> NUL) buf) @ dropWhile (\<lambda>c. c \<noteq> NUL) buf"


section \<open>The command parser of CustomBootloader.c\<close>

text \<open>
  \<open>CBL_Parser_t\<close>: \<open>cmd\<close> is the line buffer the parser points into, \<open>args\<close> the
  entries \<open>args[i][CBL_ARG_NAME]\<close>, \<open>args[i][CBL_ARG_VAL]\<close> written so far, each pointer
  an offset into \<open>cmd\<close>.
\<close>

record CBL_Parser_t =
  cmd :: string
  len :: nat
  args :: "(nat \<times> nat) list"
  numOfArgs :: nat

text \<open>
  The loop of \<open>cbl_ParseCmd\<close>. \<open>maxArgs\<close> is \<open>CBL_MAX_ARGS\<close>, a macro of a header that
  is not among the sources (the counter \<open>i\<close> is a \<open>uint8_t\<close>, so the bound is taken to
  fit 8 bits); \<open>pLastChar\<close> is the offset \<open>len\<close>, \<open>pSpa\<close> the pointer to the current
  space or NULL. The result is the buffer after the destructive writes, the final \<open>i\<close>
  and the entries written.
\<close>

function cbl_ParseCmd_loop ::
  "nat \<Rightarrow> nat \<Rightarrow> string \<Rightarrow> nat \<Rightarrow> nat option \<Rightarrow> (nat \<times> nat) list
     \<Rightarrow> string \<times> nat \<times> (nat \<times> nat) list" where
  "cbl_ParseCmd_loop maxArgs pLastChar buf i pSpa as =
     (case pSpa of
        None \<Rightarrow> (buf, i, as)
      | Some s \<Rightarrow>
          if i < maxArgs then
            (let buf1 = buf[s := NUL] in
             case memchr buf1 s (CHR ''='') (pLastChar - s) of
               None \<Rightarrow> (buf1, i, as)
             | Some e \<Rightarrow>
                 (let as1 = as @ [(s + 1, e + 1)];
                      buf2 = buf1[e := NUL]
                  in cbl_ParseCmd_loop maxArgs pLastChar buf2 (i + 1)
                       (memchr buf2 e (CHR '' '') (pLastChar - e)) as1))
          else (buf, i, as))"
  by pat_completeness auto
termination
  by (relation "measure (\<lambda>(maxArgs, pLastChar, buf, i, pSpa, as). maxArgs - i)") auto

definition cbl_ParseCmd :: "nat \<Rightarrow> string \<Rightarrow> nat \<Rightarrow> CBL_Parser_t" where
  "cbl_ParseCmd maxArgs cmd0 n =
     (let buf0 = strlwr cmd0;
          (buf, i, as) = cbl_ParseCmd_loop maxArgs n buf0 0 (memchr buf0 0 (CHR '' '') n) []
      in \<lparr>cmd = buf, len = n, args = as, numOfArgs = i\<rparr>)"

text \<open>
  \<open>cbl_ParserGetArgVal\<close> walks the first \<open>numOfArgs\<close> entries and returns the value
  pointer of the first one whose name has length \<open>lenName\<close> and agrees with \<open>name\<close>
  on that many bytes; NULL is \<open>None\<close>.
\<close>

fun cbl_ParserGetArgVal_loop ::
  "string \<Rightarrow> (nat \<times> nat) list \<Rightarrow> string \<Rightarrow> nat \<Rightarrow> nat option" where
  "cbl_ParserGetArgVal_loop buf [] name lenName = None"
| "cbl_ParserGetArgVal_loop buf ((n, v) # rest) name lenName =
     (let lenArgName = strlen buf n
      in if lenArgName = lenName \<and> strncmp_eq (c_str buf n) name lenArgName then Some v
         else cbl_ParserGetArgVal_loop buf rest name lenName)"

definition cbl_ParserGetArgVal :: "CBL_Parser_t \<Rightarrow> string \<Rightarrow> nat \<Rightarrow> nat option" where
  "cbl_ParserGetArgVal p name lenName =
     cbl_ParserGetArgVal_loop (cmd p) (take (numOfArgs p) (args p)) name lenName"

text \<open>The recorded arguments as text: the C strings at the recorded pointers.\<close>

definition arg_names :: "CBL_Parser_t \<Rightarrow> string list" where
  "arg_names p = map (\<lambda>(n, v). c_str (cmd p) n) (take (numOfArgs p) (args p))"

definition arg_val_ptrs :: "CBL_Parser_t \<Rightarrow> nat list" where
  "arg_val_ptrs p = map snd (take (numOfArgs p) (args p))"

definition parsed_args :: "CBL_Parser_t \<Rightarrow> (string \<times> string) list" where
  "parsed_args p =
     map (\<lambda>(n, v). (c_str (cmd p) n, c_str (cmd p) v)) (take (numOfArgs p) (args p))"

text \<open>The value text a lookup yields, for a key passed with its own length.\<close>

definition arg_value :: "CBL_Parser_t \<Rightarrow> string \<Rightarrow> string option" where
  "arg_value p name = map_option (c_str (cmd p)) (cbl_ParserGetArgVal p name (length name))"


section \<open>Error codes\<close>

text \<open>
  The error enumeration (\<open>CBL_ErrCode_t\<close> in CustomBootloader.c, \<open>cbl_err_code_t\<close> in
  custom_bootloader.c) is declared in a header that is not among the sources. The
  constructors are the enumerators the sources name: the case labels of
  \<open>sys_state_error\<close>, \<open>CBL_ERR_CMDCD\<close> of \<open>handle_cmd\<close> and \<open>CBL_ERR_WRITE_TOO_BIG\<close> of
  the older file. \<open>CBL_ERR_UNLISTED\<close> stands for any further value of the type.
\<close>

datatype cbl_err_code =
    CBL_ERR_OK
  | CBL_ERR_READ_OF
  | CBL_ERR_WRITE
  | CBL_ERR_STATE
  | CBL_ERR_HAL_TX
  | CBL_ERR_HAL_RX
  | CBL_ERR_RX_ABORT
  | CBL_ERR_CMD_SHORT
  | CBL_ERR_CMD_UNDEF
  | CBL_ERR_NEED_PARAM
  | CBL_ERR_JUMP_INV_ADDR
  | CBL_ERR_SECTOR
  | CBL_ERR_INV_SECT
  | CBL_ERR_INV_SECT_COUNT
  | CBL_ERR_WRITE_INV_ADDR
  | CBL_ERR_INV_SZ
  | CBL_ERR_HAL_WRITE
  | CBL_ERR_ERASE_INV_TYPE
  | CBL_ERR_HAL_ERASE
  | CBL_ERR_HAL_UNLOCK
  | CBL_ERR_INV_PARAM
  | CBL_ERR_NOT_DIG
  | CBL_ERR_1ST_NOT_ZERO
  | CBL_ERR_CKSUM_WRONG
  | CBL_ERR_TEMP_NOT_VAL1
  | CBL_ERR_UNSUP_CKSUM
  | CBL_ERR_CRC_LEN
  | CBL_ERR_SHA256_LEN
  | CBL_ERR_NEW_APP_LEN
  | CBL_ERR_NOT_IMPL
  | CBL_ERR_APP_TYPE
  | CBL_ERR_NULL_PAR
  | CBL_ERR_PAR_FORCE
  | CBL_ERR_INV_SREC
  | CBL_ERR_SREC_FCN
  | CBL_ERR_INV_HEX
  | CBL_ERR_SEGMEN
  | CBL_ERR_IHEX_FCN
  | CBL_ERR_INV_IHEX
  | CBL_ERR_CMDCD
  | CBL_ERR_WRITE_TOO_BIG
  | CBL_ERR_UNLISTED nat


section \<open>The Boot Record\<close>

text \<open>
  Modelled from the spec: \<open>cksum_t\<close>, \<open>app_type_t\<close> and \<open>boot_record_t\<close> are declared
  in headers that are not among the sources. The spec gives the checksum kinds
  {None, CRC32, SHA-256}, the application types {bin, hex, srec}, and the Boot Record
  as \<open>active_app\<close> and \<open>new_app\<close>, each {checksum kind, checksum value, length, app type},
  with the flag \<open>is_new_app_ready\<close>. The field names \<open>app_type\<close>, \<open>cksum_used\<close> and
  \<open>len\<close> (here \<open>app_len\<close>) are those \<open>cmd_update_new\<close> assigns.
\<close>

datatype cksum_t = CKSUM_NO | CKSUM_CRC | CKSUM_SHA256

datatype app_type_t = APP_TYPE_BIN | APP_TYPE_HEX | APP_TYPE_SREC

record app_meta_t =
  cksum_used :: cksum_t
  cksum_val :: "32 word"
  app_len :: "32 word"
  app_type :: app_type_t

record boot_record_t =
  act_app :: app_meta_t
  new_app :: app_meta_t
  is_new_app_ready :: bool


section \<open>Hardware events and the environment of CustomBootloader.c\<close>

datatype led = RED | GREEN | ORANGE | BLUE | LED_MEMORY | LED_READY | LED_BUSY | LED_POWER_ON

datatype HAL_StatusTypeDef = HAL_OK | HAL_ERROR | HAL_BUSY | HAL_TIMEOUT

datatype flash_typeerase = FLASH_TYPEERASE_SECTORS | FLASH_TYPEERASE_MASSERASE

datatype flash_banks = FLASH_BANK_1

datatype flash_voltage_range = FLASH_VOLTAGE_RANGE_3

text \<open>
  \<open>FLASH_EraseInitTypeDef\<close>. \<open>Sector\<close> and \<open>NbSectors\<close> are assigned in the sector
  branch only; \<open>None\<close> is the field left unassigned.
\<close>

record FLASH_EraseInitTypeDef =
  TypeErase :: flash_typeerase
  Banks :: flash_banks
  Sector :: "32 word option"
  NbSectors :: "32 word option"
  VoltageRange :: flash_voltage_range

text \<open>What a handler does to the outside world, in program order.\<close>

datatype event =
    LED_ON led
  | LED_OFF led
  | UART_Tx string
  | FLASH_Unlock
  | FLASHEx_Erase FLASH_EraseInitTypeDef
  | FLASH_Lock
  | Jump "32 word"
  | FLASH_Erase_New_App
  | FLASH_Write_New_App "32 word" cksum_t
  | BOOT_Record_Get
  | BOOT_Record_Set boot_record_t
  | SYSTEM_Restart

text \<open>
  An integer constant of C carries a type: a plain decimal literal is an \<open>int\<close>, one with
  the suffix \<open>U\<close> an \<open>unsigned int\<close>. An \<open>int\<close> value compared with the constant is
  compared as an \<open>int\<close> in the first case and converted to \<open>unsigned int\<close> (modulo
  \<open>2 ^ 32\<close>) in the second.
\<close>

datatype c_const = C_int int | C_uint "32 word"

fun const_val :: "c_const \<Rightarrow> int" where
  "const_val (C_int k) = k"
| "const_val (C_uint k) = uint k"

fun int_ge_const :: "int \<Rightarrow> c_const \<Rightarrow> bool" where
  "int_ge_const i (C_int k) = (k \<le> i)"
| "int_ge_const i (C_uint k) = (k \<le> (word_of_int i :: 32 word))"

text \<open>
  The collaborators of the handlers. \<open>FLASH_SECTOR_TOTAL\<close>, \<open>CBL_TXT_SUCCESS\<close> and the
  six \<open>IS_..._ADDRESS\<close> macros are defined in headers that are not among the sources and
  are parameters here; \<open>strtoul\<close> is the C library's (text and base to \<open>unsigned long\<close>,
  32 bits on this target); the remaining fields are the results of the vendor HAL calls.
\<close>

record cbl_env =
  FLASH_SECTOR_TOTAL :: c_const
  CBL_TXT_SUCCESS :: string
  strtoul :: "string \<Rightarrow> nat \<Rightarrow> 32 word"
  HAL_UART_Transmit :: "string \<Rightarrow> HAL_StatusTypeDef"
  HAL_FLASH_Unlock :: HAL_StatusTypeDef
  HAL_FLASHEx_Erase :: "FLASH_EraseInitTypeDef \<Rightarrow> HAL_StatusTypeDef \<times> 32 word"
  IS_FLASH_ADDRESS :: "32 word \<Rightarrow> bool"
  IS_CCMDATARAM_ADDRESS :: "32 word \<Rightarrow> bool"
  IS_SRAM1_ADDRESS :: "32 word \<Rightarrow> bool"
  IS_SRAM2_ADDRESS :: "32 word \<Rightarrow> bool"
  IS_BKPSRAM_ADDRESS :: "32 word \<Rightarrow> bool"
  IS_SYSMEM_ADDRESS :: "32 word \<Rightarrow> bool"

text \<open>
  Modelled from the spec: the argument names \<open>CBL_TXTCMD_...\<close> are macros of
  CustomBootLoader.h, which is not among the sources. Their texts are those of the
  spec's scenarios B and C (\<open>jump-to addr=...\<close>, \<open>flash-erase type=sector sector=2
  count=3\<close>); cbl_cmds_memory.h defines the same texts under the names \<open>TXT_PAR_...\<close>.
\<close>

definition CBL_TXTCMD_JUMP_TO_ADDR :: string where
  "CBL_TXTCMD_JUMP_TO_ADDR = ''addr''"

definition CBL_TXTCMD_FLASH_ERASE_TYPE :: string where
  "CBL_TXTCMD_FLASH_ERASE_TYPE = ''type''"

definition CBL_TXTCMD_FLASH_ERASE_SECT :: string where
  "CBL_TXTCMD_FLASH_ERASE_SECT = ''sector''"

definition CBL_TXTCMD_FLASH_ERASE_COUNT :: string where
  "CBL_TXTCMD_FLASH_ERASE_COUNT = ''count''"

definition CBL_TXTCMD_FLASH_ERASE_TYPE_MASS :: string where
  "CBL_TXTCMD_FLASH_ERASE_TYPE_MASS = ''mass''"

definition CBL_TXTCMD_FLASH_ERASE_TYPE_SECT :: string where
  "CBL_TXTCMD_FLASH_ERASE_TYPE_SECT = ''sector''"

definition cbl_SendToHost :: "cbl_env \<Rightarrow> string \<Rightarrow> cbl_err_code" where
  "cbl_SendToHost env buf =
     (if HAL_UART_Transmit env buf = HAL_OK then CBL_ERR_OK else CBL_ERR_HAL_TX)"


section \<open>Jumping to an address\<close>

definition cbl_VerifyJumpAddress :: "cbl_env \<Rightarrow> 32 word \<Rightarrow> cbl_err_code" where
  "cbl_VerifyJumpAddress env addr =
     (if IS_FLASH_ADDRESS env addr \<or> IS_CCMDATARAM_ADDRESS env addr \<or>
         IS_SRAM1_ADDRESS env addr \<or> IS_SRAM2_ADDRESS env addr \<or>
         IS_BKPSRAM_ADDRESS env addr \<or> IS_SYSMEM_ADDRESS env addr
      then CBL_ERR_OK else CBL_ERR_JUMP_INV_ADDR)"

text \<open>
  \<open>cbl_HandleCmdJumpTo\<close>: the return code and the events in program order.
  \<open>ERR_CHECK(eCode)\<close> returns \<open>eCode\<close> when it is not \<open>CBL_ERR_OK\<close>. The call
  \<open>jump()\<close> is the event \<open>Jump\<close>; the return code after it is the one the handler gives
  if the code jumped to returns.
\<close>

definition cbl_HandleCmdJumpTo :: "cbl_env \<Rightarrow> CBL_Parser_t \<Rightarrow> cbl_err_code \<times> event list" where
  "cbl_HandleCmdJumpTo env p =
     (case cbl_ParserGetArgVal p CBL_TXTCMD_JUMP_TO_ADDR (length CBL_TXTCMD_JUMP_TO_ADDR) of
        None \<Rightarrow> (CBL_ERR_NEED_PARAM, [])
      | Some charAddr \<Rightarrow>
          (let addr = strtoul env (c_str (cmd p) charAddr) 16;
               eCode = cbl_VerifyJumpAddress env addr
           in if eCode \<noteq> CBL_ERR_OK then (eCode, [])
              else
                (let addr1 = addr + 1;
                     eCode1 = cbl_SendToHost env (CBL_TXT_SUCCESS env)
                 in if eCode1 \<noteq> CBL_ERR_OK then (eCode1, [UART_Tx (CBL_TXT_SUCCESS env)])
                    else (eCode1, [UART_Tx (CBL_TXT_SUCCESS env), Jump addr1]))))"


section \<open>Erasing flash\<close>

text \<open>
  The tail of \<open>cbl_HandleCmdFlashErase\<close>, from \<open>LED_ON(BLUE)\<close> on, reached with the
  erase settings filled in.
\<close>

definition flash_erase_run :: "cbl_env \<Rightarrow> FLASH_EraseInitTypeDef \<Rightarrow> cbl_err_code \<times> event list" where
  "flash_erase_run env settings =
     (if HAL_FLASH_Unlock env \<noteq> HAL_OK then (CBL_ERR_HAL_UNLOCK, [LED_ON BLUE, FLASH_Unlock])
      else
        (let (HALCode, sectorCode) = HAL_FLASHEx_Erase env settings;
             evs = [LED_ON BLUE, FLASH_Unlock, FLASHEx_Erase settings, LED_OFF BLUE, FLASH_Lock]
         in if HALCode \<noteq> HAL_OK then (CBL_ERR_HAL_ERASE, evs)
            else if sectorCode \<noteq> 0xFFFFFFFF then (CBL_ERR_SECTOR, evs)
            else (cbl_SendToHost env (CBL_TXT_SUCCESS env),
                  evs @ [UART_Tx (CBL_TXT_SUCCESS env)])))"

text \<open>
  \<open>sect\<close> and \<open>count\<close> are \<open>uint8_t\<close>: the cast keeps the low 8 bits of what
  \<open>strtoul\<close> returns. In \<open>sect + count - 1\<close> both are promoted to \<open>int\<close>, so the
  difference is computed without wrap-around and is \<open>-1\<close> for \<open>0 + 0 - 1\<close>.
\<close>

definition cbl_HandleCmdFlashErase :: "cbl_env \<Rightarrow> CBL_Parser_t \<Rightarrow> cbl_err_code \<times> event list" where
  "cbl_HandleCmdFlashErase env p =
     (case cbl_ParserGetArgVal p CBL_TXTCMD_FLASH_ERASE_TYPE
             (length CBL_TXTCMD_FLASH_ERASE_TYPE) of
        None \<Rightarrow> (CBL_ERR_NEED_PARAM, [])
      | Some type \<Rightarrow>
          if strncmp_eq (c_str (cmd p) type) CBL_TXTCMD_FLASH_ERASE_TYPE_SECT
               (length CBL_TXTCMD_FLASH_ERASE_TYPE_SECT)
          then
            (case cbl_ParserGetArgVal p CBL_TXTCMD_FLASH_ERASE_SECT
                    (length CBL_TXTCMD_FLASH_ERASE_SECT) of
               None \<Rightarrow> (CBL_ERR_NEED_PARAM, [])
             | Some charSect \<Rightarrow>
                 (let sect = (ucast (strtoul env (c_str (cmd p) charSect) 10) :: 8 word)
                  in if int_ge_const (uint sect) (FLASH_SECTOR_TOTAL env)
                     then (CBL_ERR_INV_SECT, [])
                     else
                       (case cbl_ParserGetArgVal p CBL_TXTCMD_FLASH_ERASE_COUNT
                               (length CBL_TXTCMD_FLASH_ERASE_COUNT) of
                          None \<Rightarrow> (CBL_ERR_NEED_PARAM, [])
                        | Some charCount \<Rightarrow>
                            (let count =
                               (ucast (strtoul env (c_str (cmd p) charCount) 10) :: 8 word)
                             in if int_ge_const (uint sect + uint count - 1)
                                     (FLASH_SECTOR_TOTAL env)
                                then (CBL_ERR_INV_SECT_COUNT, [])
                                else flash_erase_run env
                                       \<lparr>TypeErase = FLASH_TYPEERASE_SECTORS,
                                        Banks = FLASH_BANK_1,
                                        Sector = Some (ucast sect),
                                        NbSectors = Some (ucast count),
                                        VoltageRange = FLASH_VOLTAGE_RANGE_3\<rparr>))))
          else if strncmp_eq (c_str (cmd p) type) CBL_TXTCMD_FLASH_ERASE_TYPE_MASS
                    (length CBL_TXTCMD_FLASH_ERASE_TYPE_MASS)
          then flash_erase_run env
                 \<lparr>TypeErase = FLASH_TYPEERASE_MASSERASE, Banks = FLASH_BANK_1,
                  Sector = None, NbSectors = None,
                  VoltageRange = FLASH_VOLTAGE_RANGE_3\<rparr>
          else (CBL_ERR_ERASE_INV_TYPE, []))"


section \<open>The shell of custom_bootloader.c\<close>

definition CMD_BUF_SZ :: nat where
  "CMD_BUF_SZ = 128"

definition CRLF :: string where
  "CRLF = [CR, LF]"

datatype sys_states_t = STATE_OPER | STATE_ERR | STATE_EXIT

text \<open>
  The link to the host: \<open>rx\<close> holds the bytes the host sends, in order, \<open>sent\<close> what
  the bootloader has done so far, \<open>gIsExitReq\<close> is the global exit flag.
\<close>

record link =
  rx :: string
  sent :: "event list"
  gIsExitReq :: bool

text \<open>
  The HAL wrappers are not among the sources; their return codes are parameters.
  \<open>hal_recv_from_host_start\<close> is indexed by the position of the byte it is asked for.
\<close>

record hal_env =
  hal_send_to_host :: "string \<Rightarrow> cbl_err_code"
  hal_recv_from_host_start :: "nat \<Rightarrow> cbl_err_code"

text \<open>
  \<open>CBL_process_cmd\<close> runs the parser module and the command handlers, most of which are
  not among the sources. It is taken at its interface: from the buffer, its length and
  the link it gives the return code and the new link, or \<open>None\<close> when the command never
  returns (a jump, a restart).
\<close>

record shell_env = hal_env +
  CBL_process_cmd :: "string \<Rightarrow> nat \<Rightarrow> link \<Rightarrow> (cbl_err_code \<times> link) option"

definition emit :: "event list \<Rightarrow> link \<Rightarrow> link" where
  "emit evs w = w\<lparr>sent := sent w @ evs\<rparr>"

definition ERROR_msg :: "string \<Rightarrow> string" where
  "ERROR_msg t = CRLF @ ''ERROR: '' @ t @ CRLF"

text \<open>
  The \<open>switch\<close> of \<open>sys_state_error\<close>: the new value of \<open>eCode\<close> and the messages
  passed to \<open>hal_send_to_host\<close> (whose result the function ignores). The last equation
  is the \<open>default\<close> label.
\<close>

fun sys_state_error_switch :: "cbl_err_code \<Rightarrow> cbl_err_code \<times> string list" where
  "sys_state_error_switch CBL_ERR_OK = (CBL_ERR_OK, [])"
| "sys_state_error_switch CBL_ERR_READ_OF = (CBL_ERR_OK, [ERROR_msg ''Command too long''])"
| "sys_state_error_switch CBL_ERR_WRITE = (CBL_ERR_OK, [])"
| "sys_state_error_switch CBL_ERR_STATE = (CBL_ERR_OK, [])"
| "sys_state_error_switch CBL_ERR_HAL_TX = (CBL_ERR_OK, [])"
| "sys_state_error_switch CBL_ERR_HAL_RX = (CBL_ERR_OK, [])"
| "sys_state_error_switch CBL_ERR_RX_ABORT = (CBL_ERR_OK, [])"
| "sys_state_error_switch CBL_ERR_CMD_SHORT = (CBL_ERR_OK, [])"
| "sys_state_error_switch CBL_ERR_CMD_UNDEF = (CBL_ERR_OK, [ERROR_msg ''Invalid command''])"
| "sys_state_error_switch CBL_ERR_NEED_PARAM =
     (CBL_ERR_OK, [ERROR_msg ''Missing parameter(s)''])"
| "sys_state_error_switch CBL_ERR_JUMP_INV_ADDR =
     (CBL_ERR_OK,
      [ERROR_msg ''Invalid address'' @
       ''Jumpable regions: FLASH, SRAM1, SRAM2, CCMRAM, '' @
       ''BKPSRAM, SYSMEM and EXTMEM (if connected)'' @ CRLF])"
| "sys_state_error_switch CBL_ERR_SECTOR =
     (CBL_ERR_OK, [ERROR_msg ''Internal error while erasing sectors''])"
| "sys_state_error_switch CBL_ERR_INV_SECT = (CBL_ERR_OK, [ERROR_msg ''Wrong sector given''])"
| "sys_state_error_switch CBL_ERR_INV_SECT_COUNT =
     (CBL_ERR_OK, [ERROR_msg ''Wrong sector count given''])"
| "sys_state_error_switch CBL_ERR_WRITE_INV_ADDR =
     (CBL_ERR_OK, [ERROR_msg ''Invalid address range entered''])"
| "sys_state_error_switch CBL_ERR_INV_SZ = (CBL_ERR_OK, [ERROR_msg ''Invalid length''])"
| "sys_state_error_switch CBL_ERR_HAL_WRITE =
     (CBL_ERR_OK, [ERROR_msg (''Error while writing to flash.'' @ '' Retry last message.'')])"
| "sys_state_error_switch CBL_ERR_ERASE_INV_TYPE =
     (CBL_ERR_OK, [ERROR_msg ''Invalid erase type''])"
| "sys_state_error_switch CBL_ERR_HAL_ERASE =
     (CBL_ERR_OK, [ERROR_msg ''HAL error while erasing sectors ''])"
| "sys_state_error_switch CBL_ERR_HAL_UNLOCK =
     (CBL_ERR_OK, [ERROR_msg ''Unlocking flash failed''])"
| "sys_state_error_switch CBL_ERR_INV_PARAM = (CBL_ERR_OK, [])"
| "sys_state_error_switch CBL_ERR_NOT_DIG =
     (CBL_ERR_OK, [ERROR_msg ''Number parameter contains letters''])"
| "sys_state_error_switch CBL_ERR_1ST_NOT_ZERO =
     (CBL_ERR_OK,
      [ERROR_msg (''Number parameter must have '' @ [CHR 0x27, CHR ''0'', CHR 0x27] @
         '' at the start '' @ '' when '' @ [CHR 0x27, CHR ''x'', CHR 0x27] @
         '' is present'')])"
| "sys_state_error_switch CBL_ERR_CKSUM_WRONG =
     (CBL_ERR_OK,
      [ERROR_msg (''Data corrupted during transport'' @
         '' (Invalid checksum). Retry last message.'')])"
| "sys_state_error_switch CBL_ERR_TEMP_NOT_VAL1 =
     (CBL_ERR_OK, [ERROR_msg ''Value for parameter invalid...''])"
| "sys_state_error_switch CBL_ERR_UNSUP_CKSUM =
     (CBL_ERR_OK, [ERROR_msg ''Requested checksum not supported''])"
| "sys_state_error_switch CBL_ERR_CRC_LEN =
     (CBL_ERR_OK, [ERROR_msg (''Length for CRC32 must be '' @ ''divisible by 4 '')])"
| "sys_state_error_switch CBL_ERR_SHA256_LEN =
     (CBL_ERR_OK, [ERROR_msg ''Invalid length for sha256''])"
| "sys_state_error_switch CBL_ERR_NEW_APP_LEN =
     (CBL_ERR_OK, [ERROR_msg ''New app is too long. Aborting''])"
| "sys_state_error_switch CBL_ERR_NOT_IMPL =
     (CBL_ERR_OK, [ERROR_msg ''Requested action is not implemented''])"
| "sys_state_error_switch CBL_ERR_APP_TYPE =
     (CBL_ERR_OK, [ERROR_msg ''Invalid user application type''])"
| "sys_state_error_switch CBL_ERR_NULL_PAR =
     (CBL_ERR_OK, [ERROR_msg (''NULL sent as a parameter'' @ '' of a function'')])"
| "sys_state_error_switch CBL_ERR_PAR_FORCE =
     (CBL_ERR_OK, [ERROR_msg ''Invalid force parameter''])"
| "sys_state_error_switch CBL_ERR_INV_SREC = (CBL_ERR_OK, [ERROR_msg ''Invalid S-record file''])"
| "sys_state_error_switch CBL_ERR_SREC_FCN =
     (CBL_ERR_OK, [ERROR_msg ''Invalid S-record function''])"
| "sys_state_error_switch CBL_ERR_INV_HEX =
     (CBL_ERR_OK, [ERROR_msg ''Invalid hex value character''])"
| "sys_state_error_switch CBL_ERR_SEGMEN = (CBL_ERR_OK, [ERROR_msg ''Segmentation''])"
| "sys_state_error_switch CBL_ERR_IHEX_FCN =
     (CBL_ERR_OK, [ERROR_msg ''Unsupported Intel hex function''])"
| "sys_state_error_switch CBL_ERR_INV_IHEX =
     (CBL_ERR_OK, [ERROR_msg ''Invalid contents of intel hex''])"
| "sys_state_error_switch eCode = (eCode, [])"

text \<open>The \<open>case\<close> labels of that \<open>switch\<close>, in the order of the source.\<close>

definition sys_state_error_cases :: "cbl_err_code list" where
  "sys_state_error_cases =
     [CBL_ERR_OK, CBL_ERR_READ_OF, CBL_ERR_WRITE, CBL_ERR_STATE, CBL_ERR_HAL_TX,
      CBL_ERR_HAL_RX, CBL_ERR_RX_ABORT, CBL_ERR_CMD_SHORT, CBL_ERR_CMD_UNDEF,
      CBL_ERR_NEED_PARAM, CBL_ERR_JUMP_INV_ADDR, CBL_ERR_SECTOR, CBL_ERR_INV_SECT,
      CBL_ERR_INV_SECT_COUNT, CBL_ERR_WRITE_INV_ADDR, CBL_ERR_INV_SZ, CBL_ERR_HAL_WRITE,
      CBL_ERR_ERASE_INV_TYPE, CBL_ERR_HAL_ERASE, CBL_ERR_HAL_UNLOCK, CBL_ERR_INV_PARAM,
      CBL_ERR_NOT_DIG, CBL_ERR_1ST_NOT_ZERO, CBL_ERR_CKSUM_WRONG, CBL_ERR_TEMP_NOT_VAL1,
      CBL_ERR_UNSUP_CKSUM, CBL_ERR_CRC_LEN, CBL_ERR_SHA256_LEN, CBL_ERR_NEW_APP_LEN,
      CBL_ERR_NOT_IMPL, CBL_ERR_APP_TYPE, CBL_ERR_NULL_PAR, CBL_ERR_PAR_FORCE,
      CBL_ERR_INV_SREC, CBL_ERR_SREC_FCN, CBL_ERR_INV_HEX, CBL_ERR_SEGMEN,
      CBL_ERR_IHEX_FCN, CBL_ERR_INV_IHEX]"

definition sys_state_error :: "cbl_err_code \<Rightarrow> link \<Rightarrow> cbl_err_code \<times> link" where
  "sys_state_error eCode w =
     (let (eCode1, msgs) = sys_state_error_switch eCode
      in (eCode1,
          emit ([LED_OFF LED_MEMORY, LED_OFF LED_READY, LED_OFF LED_BUSY] @ map UART_Tx msgs) w))"

text \<open>
  The loop of \<open>wait_for_cmd\<close>. Each started reception delivers the next byte of the
  host into \<open>buf[iii]\<close> and the receive interrupt counts it, so \<open>gRxCmdCntr\<close> equals
  \<open>iii\<close> at the head of the loop; when the host sends nothing more the inner wait never
  ends, which is the result \<open>None\<close>. Otherwise the result is the return code, the
  buffer and the bytes not yet consumed.
\<close>

function wait_for_cmd_loop ::
  "hal_env \<Rightarrow> nat \<Rightarrow> string \<Rightarrow> nat \<Rightarrow> bool \<Rightarrow> string
     \<Rightarrow> (cbl_err_code \<times> string \<times> string) option" where
  "wait_for_cmd_loop env n buf iii isLastCharCR input =
     (if iii < n then
        (let eCode = hal_recv_from_host_start env iii
         in if eCode \<noteq> CBL_ERR_OK then Some (eCode, buf, input)
            else
              (case input of
                 [] \<Rightarrow> None
               | c # input1 \<Rightarrow>
                   (let buf1 = buf[iii := c]
                    in if isLastCharCR \<and> c = LF
                       then Some (CBL_ERR_OK, buf1[iii - 1 := NUL], input1)
                       else wait_for_cmd_loop env n buf1 (iii + 1) (c = CR) input1)))
      else Some (CBL_ERR_READ_OF, buf, input))"
  by pat_completeness auto
termination
  by (relation "measure (\<lambda>(env, n, buf, iii, isLastCharCR, input). n - iii)") auto

definition wait_for_cmd ::
  "hal_env \<Rightarrow> string \<Rightarrow> nat \<Rightarrow> link \<Rightarrow> (cbl_err_code \<times> string \<times> link) option" where
  "wait_for_cmd env buf n w =
     (let eCode = hal_send_to_host env (CRLF @ ''> '');
          w1 = emit [UART_Tx (CRLF @ ''> '')] w
      in if eCode \<noteq> CBL_ERR_OK then Some (eCode, buf, w1)
         else
           (case wait_for_cmd_loop env n buf 0 False (rx w1) of
              None \<Rightarrow> None
            | Some (eCode1, buf1, input1) \<Rightarrow> Some (eCode1, buf1, w1\<lparr>rx := input1\<rparr>)))"

text \<open>
  \<open>sys_state_operation\<close> starts from its own buffer \<open>char cmd[CMD_BUF_SZ] = { 0 }\<close> on
  every call.
\<close>

definition sys_state_operation :: "shell_env \<Rightarrow> link \<Rightarrow> (cbl_err_code \<times> link) option" where
  "sys_state_operation env w =
     (let cmd0 = replicate CMD_BUF_SZ NUL
      in case wait_for_cmd (hal_env.truncate env) cmd0 CMD_BUF_SZ (emit [LED_ON LED_READY] w) of
           None \<Rightarrow> None
         | Some (eCode, cmd1, w1) \<Rightarrow>
             if eCode \<noteq> CBL_ERR_OK then Some (eCode, w1)
             else
               (case CBL_process_cmd env cmd1 (strlen cmd1 0)
                       (emit [LED_OFF LED_READY, LED_ON LED_BUSY] w1) of
                  None \<Rightarrow> None
                | Some (eCode2, w2) \<Rightarrow> Some (eCode2, emit [LED_OFF LED_BUSY] w2)))"

text \<open>
  The local variables of \<open>run_shell_system\<close> together with the link, and one pass
  through the body of its \<open>while\<close> loop. A pass either goes on with new variables,
  leaves the function at once (the \<open>ERR_CHECK\<close> in the exit state), or never ends.
\<close>

record shell =
  state :: sys_states_t
  nextState :: sys_states_t
  eCode :: cbl_err_code
  isExitNeeded :: bool
  lnk :: link

datatype pass = Continue shell | Return cbl_err_code link | Blocked

definition shell_pass :: "shell_env \<Rightarrow> shell \<Rightarrow> pass" where
  "shell_pass env s =
     (case state s of
        STATE_OPER \<Rightarrow>
          (case sys_state_operation env (lnk s) of
             None \<Rightarrow> Blocked
           | Some (e, w) \<Rightarrow>
               (let nx = (if e \<noteq> CBL_ERR_OK then STATE_ERR
                          else if gIsExitReq w then STATE_EXIT
                          else nextState s)
                in Continue (s\<lparr>state := nx, nextState := nx, eCode := e, lnk := w\<rparr>)))
      | STATE_ERR \<Rightarrow>
          (let (e, w) = sys_state_error (eCode s) (lnk s);
               nx = (if e \<noteq> CBL_ERR_OK then STATE_EXIT else STATE_OPER)
           in Continue (s\<lparr>state := nx, nextState := nx, eCode := e, lnk := w\<rparr>))
      | STATE_EXIT \<Rightarrow>
          (let e = hal_send_to_host env (''Exiting'' @ CRLF @ CRLF);
               w = emit [UART_Tx (''Exiting'' @ CRLF @ CRLF)] (lnk s)
           in if e \<noteq> CBL_ERR_OK then Return e w
              else Continue (s\<lparr>state := nextState s, eCode := e, isExitNeeded := True,
                               lnk := w\<rparr>)))"

text \<open>
  The \<open>while\<close> loop itself may run for ever; \<open>None\<close> is the run that does not return.
  \<open>run_shell_system\<close> enters it with \<open>state\<close> and \<open>nextState\<close> at \<open>STATE_ERR\<close> and
  with \<open>eCode\<close> at \<open>CBL_ERR_OK\<close>, or at the result of the update-act command it runs
  first when that command group is compiled in.
\<close>

partial_function (option) shell_loop :: "shell_env \<Rightarrow> shell \<Rightarrow> (cbl_err_code \<times> link) option" where
  "shell_loop env s =
     (if isExitNeeded s then Some (eCode s, emit [LED_OFF LED_POWER_ON] (lnk s))
      else
        (case shell_pass env s of
           Continue s1 \<Rightarrow> shell_loop env s1
         | Return e w \<Rightarrow> Some (e, w)
         | Blocked \<Rightarrow> None))"


section \<open>Staging a new application: cbl_cmds_update_new.c\<close>

text \<open>
  How a function ends: it returns normally with a value, it returns an error code, or
  it reads through a null pointer, which C leaves undefined.
\<close>

datatype 'a outcome = Done 'a | Error cbl_err_code | Null_Dereference

text \<open>
  How the handler ends: it returns a code, it restarts the processor (the call of
  \<open>hal_system_restart\<close> does not come back), or its behaviour is undefined after the
  read through a null pointer.
\<close>

datatype handler_end = Returned cbl_err_code | Restarted | Undefined_Behaviour

text \<open>
  The collaborators of \<open>cmd_update_new\<close>, none of which is among the sources, as
  parameters. \<open>'p\<close> is the parser handle \<open>parser_t\<close>; \<open>parser_get_val\<close> gives the value
  text or NULL (\<open>None\<close>). The helpers \<open>str2ui32\<close>, \<open>enum_checksum\<close> and
  \<open>enum_app_type\<close> return a code and write their result through a pointer: a pair
  here. \<open>hal_flash_erase_sector\<close> is called on the constants
  \<open>BOOT_NEW_APP_START_SECTOR\<close>, \<open>BOOT_NEW_APP_MAX_SECTORS\<close> and \<open>flash_write\<close> on
  \<open>BOOT_NEW_APP_START\<close>, so their results depend on the length and checksum only.
  \<open>boot_record_set\<close> takes the stored record and the new one and gives its return code
  and the record stored afterwards.
\<close>

record 'p update_env = hal_env +
  TXT_PAR_UP_NEW_COUNT :: string
  TXT_PAR_CKSUM :: string
  TXT_PAR_APP_TYPE :: string
  TXT_SUCCESS :: string
  BOOT_NEW_APP_MAX_LEN :: "32 word"
  parser_get_val :: "'p \<Rightarrow> string \<Rightarrow> nat \<Rightarrow> string option"
  str2ui32 :: "string \<Rightarrow> nat \<Rightarrow> nat \<Rightarrow> cbl_err_code \<times> 32 word"
  enum_checksum :: "string \<Rightarrow> nat \<Rightarrow> cbl_err_code \<times> cksum_t"
  enum_app_type :: "string \<Rightarrow> nat \<Rightarrow> cbl_err_code \<times> app_type_t"
  hal_flash_erase_sector :: cbl_err_code
  flash_write :: "32 word \<Rightarrow> cksum_t \<Rightarrow> cbl_err_code"
  boot_record_set :: "boot_record_t \<Rightarrow> boot_record_t \<Rightarrow> cbl_err_code \<times> boot_record_t"

text \<open>
  \<open>update_new_get_params\<close>. The lookups of \<open>count\<close> and of the application type are
  followed by a test for NULL; the lookup of the checksum is not, and its result goes
  to \<open>strlen\<close> as it is.
\<close>

definition update_new_get_params ::
  "'p update_env \<Rightarrow> 'p \<Rightarrow> (32 word \<times> cksum_t \<times> app_type_t) outcome" where
  "update_new_get_params env ph_prsr =
     (case parser_get_val env ph_prsr (TXT_PAR_UP_NEW_COUNT env)
             (length (TXT_PAR_UP_NEW_COUNT env)) of
        None \<Rightarrow> Error CBL_ERR_NEED_PARAM
      | Some char_len \<Rightarrow>
          (let (eCode, p_len) = str2ui32 env char_len (length char_len) 10
           in if eCode \<noteq> CBL_ERR_OK then Error eCode
              else if BOOT_NEW_APP_MAX_LEN env < p_len then Error CBL_ERR_NEW_APP_LEN
              else
                (case parser_get_val env ph_prsr (TXT_PAR_CKSUM env)
                        (length (TXT_PAR_CKSUM env)) of
                   None \<Rightarrow> Null_Dereference
                 | Some char_cksum \<Rightarrow>
                     (let (eCode1, p_cksum) = enum_checksum env char_cksum (length char_cksum)
                      in if eCode1 \<noteq> CBL_ERR_OK then Error eCode1
                         else
                           (case parser_get_val env ph_prsr (TXT_PAR_APP_TYPE env)
                                   (length (TXT_PAR_APP_TYPE env)) of
                              None \<Rightarrow> Error CBL_ERR_NEED_PARAM
                            | Some char_app_type \<Rightarrow>
                                (let (eCode2, p_app_type) =
                                   enum_app_type env char_app_type (length char_app_type)
                                 in if eCode2 \<noteq> CBL_ERR_OK then Error eCode2
                                    else Done (p_len, p_cksum, p_app_type)))))))"

text \<open>
  The persistent store and the trace of the handler. \<open>boot_record_get\<close> hands out the
  stored record; the handler changes the three fields of \<open>new_app\<close> and the flag in
  that copy and passes it to \<open>boot_record_set\<close>, the only call that writes the store.
  Erasing and writing the staging sectors are events; they leave the store as it is.
\<close>

record nv_state =
  boot_record :: boot_record_t
  trace :: "event list"

definition record_events :: "event list \<Rightarrow> nv_state \<Rightarrow> nv_state" where
  "record_events evs s = s\<lparr>trace := trace s @ evs\<rparr>"

definition restart_msg :: string where
  "restart_msg = ''Restarting...'' @ CRLF"

definition cmd_update_new :: "'p update_env \<Rightarrow> 'p \<Rightarrow> nv_state \<Rightarrow> handler_end \<times> nv_state" where
  "cmd_update_new env phPrsr s =
     (case update_new_get_params env phPrsr of
        Null_Dereference \<Rightarrow> (Undefined_Behaviour, s)
      | Error e \<Rightarrow> (Returned e, s)
      | Done (n, cksum, atype) \<Rightarrow>
          (let e1 = hal_flash_erase_sector env;
               s1 = record_events [FLASH_Erase_New_App] s
           in if e1 \<noteq> CBL_ERR_OK then (Returned e1, s1)
              else
                (let e2 = flash_write env n cksum;
                     s2 = record_events [FLASH_Write_New_App n cksum] s1
                 in if e2 \<noteq> CBL_ERR_OK then (Returned e2, s2)
                    else
                      (let r = boot_record s2;
                           r1 = r\<lparr>new_app := (new_app r)\<lparr>app_type := atype, cksum_used := cksum,
                                                          app_len := n\<rparr>,
                                  is_new_app_ready := True\<rparr>;
                           (e3, stored) = boot_record_set env (boot_record s2) r1;
                           s3 = record_events [BOOT_Record_Get, BOOT_Record_Set r1]
                                  (s2\<lparr>boot_record := stored\<rparr>)
                       in if e3 \<noteq> CBL_ERR_OK then (Returned e3, s3)
                          else
                            (let e4 = hal_send_to_host env (TXT_SUCCESS env);
                                 s4 = record_events [UART_Tx (TXT_SUCCESS env)] s3
                             in if e4 \<noteq> CBL_ERR_OK then (Returned e4, s4)
                                else
                                  (let e5 = hal_send_to_host env restart_msg;
                                       s5 = record_events [UART_Tx restart_msg] s4
                                   in if e5 \<noteq> CBL_ERR_OK then (Returned e5, s5)
                                      else (Restarted,
                                            record_events [SYSTEM_Restart] s5)))))))"


text \<open>The settings the sector branch of the erase handler fills in.\<close>

definition sector_settings :: "8 word \<Rightarrow> 8 word \<Rightarrow> FLASH_EraseInitTypeDef" where
  "sector_settings sect count =
     \<lparr>TypeErase = FLASH_TYPEERASE_SECTORS, Banks = FLASH_BANK_1, Sector = Some (ucast sect),
      NbSectors = Some (ucast count), VoltageRange = FLASH_VOLTAGE_RANGE_3\<rparr>"


section \<open>Concrete environments\<close>

text \<open>
  A model of the C library's \<open>strtoul\<close> on 32 bits, for the concrete commands below:
  leading white space, an optional sign, for base 16 an optional \<open>0x\<close>, then the digits
  of the base up to the first other character; a value that does not fit is
  \<open>ULONG_MAX\<close>.
\<close>

definition digit_val :: "char \<Rightarrow> nat" where
  "digit_val c =
     (let k = (of_char c :: nat)
      in if 48 \<le> k \<and> k \<le> 57 then k - 48
         else if 97 \<le> k \<and> k \<le> 122 then k - 87
         else if 65 \<le> k \<and> k \<le> 90 then k - 55
         else 36)"

fun strtoul_digits :: "nat \<Rightarrow> int \<Rightarrow> string \<Rightarrow> int" where
  "strtoul_digits base acc [] = acc"
| "strtoul_digits base acc (c # cs) =
     (if digit_val c < base
      then strtoul_digits base (acc * int base + int (digit_val c)) cs else acc)"

definition isspace :: "char \<Rightarrow> bool" where
  "isspace c = (let k = (of_char c :: nat) in k = 32 \<or> (9 \<le> k \<and> k \<le> 13))"

definition libc_strtoul :: "string \<Rightarrow> nat \<Rightarrow> 32 word" where
  "libc_strtoul s base =
     (let s1 = dropWhile isspace s;
          neg = (take 1 s1 = ''-'');
          s2 = (if take 1 s1 = ''-'' \<or> take 1 s1 = ''+'' then drop 1 s1 else s1);
          s3 = (if base = 16 \<and> (take 2 s2 = ''0x'' \<or> take 2 s2 = ''0X'') then drop 2 s2 else s2);
          v = strtoul_digits base 0 s3
      in if 2 ^ 32 \<le> v then 0xFFFFFFFF
         else if neg then - word_of_int v else word_of_int v)"

definition in_range :: "32 word \<Rightarrow> 32 word \<Rightarrow> 32 word \<Rightarrow> bool" where
  "in_range lo hi a = (lo \<le> a \<and> a \<le> hi)"

text \<open>
  An environment in which every HAL call succeeds, with the memory map of the
  STM32F407 (flash with its OTP area, CCM RAM, SRAM1, SRAM2, backup SRAM, system
  memory) and a given \<open>FLASH_SECTOR_TOTAL\<close>.
\<close>

definition board_env :: "c_const \<Rightarrow> cbl_env" where
  "board_env sector_total =
     \<lparr>FLASH_SECTOR_TOTAL = sector_total,
      CBL_TXT_SUCCESS = CRLF @ ''OK'' @ CRLF,
      strtoul = libc_strtoul,
      HAL_UART_Transmit = (\<lambda>buf. HAL_OK),
      HAL_FLASH_Unlock = HAL_OK,
      HAL_FLASHEx_Erase = (\<lambda>settings. (HAL_OK, 0xFFFFFFFF)),
      IS_FLASH_ADDRESS =
        (\<lambda>a. in_range 0x08000000 0x080FFFFF a \<or> in_range 0x1FFF7800 0x1FFF7A0F a),
      IS_CCMDATARAM_ADDRESS = in_range 0x10000000 0x1000FFFF,
      IS_SRAM1_ADDRESS = in_range 0x20000000 0x2001BFFF,
      IS_SRAM2_ADDRESS = in_range 0x2001C000 0x2001FFFF,
      IS_BKPSRAM_ADDRESS = in_range 0x40024000 0x40024FFF,
      IS_SYSMEM_ADDRESS = in_range 0x1FFF0000 0x1FFF77FF\<rparr>"

text \<open>The command cycle of CustomBootloader.c up to the parser, for a line without CR LF.\<close>

definition parse_line :: "string \<Rightarrow> CBL_Parser_t" where
  "parse_line l = cbl_ParseCmd 10 (l @ [NUL]) (length l)"

text \<open>A link environment in which every HAL call succeeds and every command returns OK.\<close>

definition quiet_shell_env :: shell_env where
  "quiet_shell_env =
     \<lparr>hal_send_to_host = (\<lambda>m. CBL_ERR_OK),
      hal_recv_from_host_start = (\<lambda>i. CBL_ERR_OK),
      CBL_process_cmd = (\<lambda>buf n w. Some (CBL_ERR_OK, w))\<rparr>"

text \<open>
  A link environment in which every HAL call succeeds and every command returns OK after
  sending back the \<open>len\<close> bytes of the buffer it was given.
\<close>

definition echo_shell_env :: shell_env where
  "echo_shell_env =
     \<lparr>hal_send_to_host = (\<lambda>m. CBL_ERR_OK),
      hal_recv_from_host_start = (\<lambda>i. CBL_ERR_OK),
      CBL_process_cmd = (\<lambda>buf n w. Some (CBL_ERR_OK, emit [UART_Tx (take n buf)] w))\<rparr>"

text \<open>
  An update environment over an association list as parser handle. The helpers accept
  decimal lengths, the checksum names \<open>no\<close>, \<open>crc32\<close>, \<open>sha256\<close> and the types
  \<open>bin\<close>, \<open>hex\<close>, \<open>srec\<close>. Erasing, writing and storing the record succeed;
  \<open>send\<close> is the result of every \<open>hal_send_to_host\<close>.
\<close>

definition staging_env :: "cbl_err_code \<Rightarrow> (string \<times> string) list update_env" where
  "staging_env send =
     \<lparr>hal_send_to_host = (\<lambda>m. send),
      hal_recv_from_host_start = (\<lambda>i. CBL_ERR_OK),
      TXT_PAR_UP_NEW_COUNT = ''count'',
      TXT_PAR_CKSUM = ''cksum'',
      TXT_PAR_APP_TYPE = ''type'',
      TXT_SUCCESS = CRLF @ ''OK'' @ CRLF,
      BOOT_NEW_APP_MAX_LEN = 1024,
      parser_get_val = (\<lambda>p name n. map_of p (take n name)),
      str2ui32 = (\<lambda>s n base. (CBL_ERR_OK, libc_strtoul (take n s) base)),
      enum_checksum =
        (\<lambda>s n. if take n s = ''sha256'' then (CBL_ERR_OK, CKSUM_SHA256)
                else if take n s = ''crc32'' then (CBL_ERR_OK, CKSUM_CRC)
                else if take n s = ''no'' then (CBL_ERR_OK, CKSUM_NO)
                else (CBL_ERR_UNSUP_CKSUM, CKSUM_NO)),
      enum_app_type =
        (\<lambda>s n. if take n s = ''bin'' then (CBL_ERR_OK, APP_TYPE_BIN)
                else if take n s = ''hex'' then (CBL_ERR_OK, APP_TYPE_HEX)
                else if take n s = ''srec'' then (CBL_ERR_OK, APP_TYPE_SREC)
                else (CBL_ERR_APP_TYPE, APP_TYPE_BIN)),
      hal_flash_erase_sector = CBL_ERR_OK,
      flash_write = (\<lambda>n cksum. CBL_ERR_OK),
      boot_record_set = (\<lambda>old new. (CBL_ERR_OK, new))\<rparr>"

definition no_app :: app_meta_t where
  "no_app = \<lparr>cksum_used = CKSUM_NO, cksum_val = 0, app_len = 0, app_type = APP_TYPE_BIN\<rparr>"

definition first_boot :: nv_state where
  "first_boot =
     \<lparr>boot_record = \<lparr>act_app = no_app, new_app = no_app, is_new_app_ready = False\<rparr>,
      trace = []\<rparr>"


text \<open>A link with the given bytes waiting, and the loop variables in a given state.\<close>

definition idle_link :: "string \<Rightarrow> link" where
  "idle_link input = \<lparr>rx = input, sent = [], gIsExitReq = False\<rparr>"

definition shell_in :: "sys_states_t \<Rightarrow> cbl_err_code \<Rightarrow> link \<Rightarrow> shell" where
  "shell_in st e w = \<lparr>state = st, nextState = st, eCode = e, isExitNeeded = False, lnk = w\<rparr>"


text \<open>A line that fills the command buffer without CR LF, followed by the line \<open>help\<close>.\<close>

definition long_input :: string where
  "long_input = replicate CMD_BUF_SZ (CHR ''a'') @ ''help'' @ CRLF"


section \<open>Argument lookup\<close>

lemma strncmp_own_length:
  "(length a = length name \<and> strncmp_eq a name (length a)) = (a = name)"
  by (auto simp: strncmp_eq_def)

lemma getargval_loop_find:
  "cbl_ParserGetArgVal_loop buf es name (length name) =
     map_option snd (find (\<lambda>(n, v). c_str buf n = name) es)"
proof (induction es)
  case Nil
  show ?case by simp
next
  case (Cons e es)
  obtain n v where e: "e = (n, v)" by (cases e)
  show ?case
    using Cons strncmp_own_length [of "c_str buf n" name]
    by (auto simp: e strlen_def Let_def)
qed

lemma find_first_index:
  "find P xs = Some x \<Longrightarrow> \<exists>i < length xs. xs ! i = x \<and> P x \<and> (\<forall>j < i. \<not> P (xs ! j))"
  by (auto simp: find_Some_iff)

text \<open>
  C9. For every parser handle \<open>p\<close> and key \<open>name\<close>, looked up with its own length:
  when no recorded argument name equals the key the lookup returns NULL; when one does,
  the lookup returns the value pointer of the first recorded argument whose name equals
  the key, so the first of several equal keys wins.
\<close>

theorem parser_get_arg_val_first_match:
  "(name \<notin> set (arg_names p) \<longrightarrow> cbl_ParserGetArgVal p name (length name) = None) \<and>
   (name \<in> set (arg_names p) \<longrightarrow>
      (\<exists>i < length (arg_names p).
          arg_names p ! i = name \<and> (\<forall>j < i. arg_names p ! j \<noteq> name) \<and>
          cbl_ParserGetArgVal p name (length name) = Some (arg_val_ptrs p ! i)))"
proof -
  define es where "es = take (numOfArgs p) (args p)"
  define P where "P = (\<lambda>(n :: nat, v :: nat). c_str (cmd p) n = name)"
  have names: "arg_names p = map (\<lambda>(n, v). c_str (cmd p) n) es"
    by (simp add: arg_names_def es_def)
  have ptrs: "arg_val_ptrs p = map snd es"
    by (simp add: arg_val_ptrs_def es_def)
  have look: "cbl_ParserGetArgVal p name (length name) = map_option snd (find P es)"
    by (simp add: cbl_ParserGetArgVal_def getargval_loop_find es_def P_def)
  have nth_name: "arg_names p ! j = name \<longleftrightarrow> P (es ! j)" if "j < length es" for j
    using that by (simp add: names P_def case_prod_beta)
  show ?thesis
  proof (intro conjI impI)
    assume "name \<notin> set (arg_names p)"
    then have "\<forall>e \<in> set es. \<not> P e"
      by (auto simp: names P_def)
    then have "find P es = None"
      by (simp add: find_None_iff)
    then show "cbl_ParserGetArgVal p name (length name) = None"
      by (simp add: look)
  next
    assume "name \<in> set (arg_names p)"
    then have "\<exists>e \<in> set es. P e"
      by (auto simp: names P_def)
    then obtain x where fx: "find P es = Some x"
      by (cases "find P es") (auto simp: find_None_iff)
    from find_first_index [OF fx] obtain i where
      i: "i < length es" "es ! i = x" "\<forall>j < i. \<not> P (es ! j)" and px: "P x"
      by blast
    have 1: "arg_names p ! i = name"
      using i px nth_name by simp
    have 2: "\<forall>j < i. arg_names p ! j \<noteq> name"
      using i nth_name by simp
    have 3: "cbl_ParserGetArgVal p name (length name) = Some (arg_val_ptrs p ! i)"
      using i by (simp add: look fx ptrs)
    from 1 2 3 i(1) show "\<exists>i < length (arg_names p).
          arg_names p ! i = name \<and> (\<forall>j < i. arg_names p ! j \<noteq> name) \<and>
          cbl_ParserGetArgVal p name (length name) = Some (arg_val_ptrs p ! i)"
      by (auto simp: names)
  qed
qed

lemma parse_dup:
  "parse_line ''mem-read a=1 b=2 a=3'' =
     \<lparr>cmd = ''mem-read'' @ [NUL] @ ''a'' @ [NUL] @ ''1'' @ [NUL] @ ''b'' @ [NUL] @ ''2'' @ [NUL] @
             ''a'' @ [NUL] @ ''3'' @ [NUL],
      len = 20, args = [(9, 11), (13, 15), (17, 19)], numOfArgs = 3\<rparr>"
  by (simp add: parse_line_def cbl_ParseCmd_def strlwr_def tolower_def NUL_def memchr_def)

theorem parser_get_arg_val_first_match_witness:
  "''a'' \<in> set (arg_names (parse_line ''mem-read a=1 b=2 a=3'')) \<and>
   ''e'' \<notin> set (arg_names (parse_line ''mem-read a=1 b=2 a=3'')) \<and>
   cbl_ParserGetArgVal (parse_line ''mem-read a=1 b=2 a=3'') ''e'' (length ''e'') = None \<and>
   (\<exists>i < length (arg_names (parse_line ''mem-read a=1 b=2 a=3'')).
      arg_names (parse_line ''mem-read a=1 b=2 a=3'') ! i = ''a'' \<and>
      (\<forall>j < i. arg_names (parse_line ''mem-read a=1 b=2 a=3'') ! j \<noteq> ''a'') \<and>
      cbl_ParserGetArgVal (parse_line ''mem-read a=1 b=2 a=3'') ''a'' (length ''a'') =
        Some (arg_val_ptrs (parse_line ''mem-read a=1 b=2 a=3'') ! i))"
proof -
  have names: "arg_names (parse_line ''mem-read a=1 b=2 a=3'') = [''a'', ''b'', ''a'']"
    by (simp add: parse_dup arg_names_def c_str_def NUL_def)
  have present: "''a'' \<in> set (arg_names (parse_line ''mem-read a=1 b=2 a=3''))"
    by (simp add: names)
  have absent: "''e'' \<notin> set (arg_names (parse_line ''mem-read a=1 b=2 a=3''))"
    by (simp add: names)
  show ?thesis
    using present absent
      parser_get_arg_val_first_match [of "''a''" "parse_line ''mem-read a=1 b=2 a=3''"]
      parser_get_arg_val_first_match [of "''e''" "parse_line ''mem-read a=1 b=2 a=3''"]
    by blast
qed

text \<open>On the line \<open>mem-read a=1 b=2 a=3\<close> the key \<open>a\<close> yields the first value.\<close>

lemma lookup_duplicate_key:
  "arg_value (parse_line ''mem-read a=1 b=2 a=3'') ''a'' = Some ''1''"
  by (simp add: parse_dup arg_value_def cbl_ParserGetArgVal_def strlen_def c_str_def NUL_def
      strncmp_eq_def)


section \<open>Validation of the jump address\<close>

text \<open>
  C8. \<open>cbl_VerifyJumpAddress\<close> gives, for every 32-bit address, exactly one of
  \<open>CBL_ERR_OK\<close> and \<open>CBL_ERR_JUMP_INV_ADDR\<close>, and the error exactly for the addresses
  that lie in none of the six jumpable regions (flash, CCM RAM, SRAM1, SRAM2, backup
  SRAM, system memory), which covers the peripheral registers.
\<close>

theorem verify_jump_address_total:
  "(cbl_VerifyJumpAddress env addr = CBL_ERR_OK \<or>
    cbl_VerifyJumpAddress env addr = CBL_ERR_JUMP_INV_ADDR) \<and>
   \<not> (cbl_VerifyJumpAddress env addr = CBL_ERR_OK \<and>
      cbl_VerifyJumpAddress env addr = CBL_ERR_JUMP_INV_ADDR) \<and>
   (cbl_VerifyJumpAddress env addr = CBL_ERR_JUMP_INV_ADDR \<longleftrightarrow>
      \<not> IS_FLASH_ADDRESS env addr \<and> \<not> IS_CCMDATARAM_ADDRESS env addr \<and>
      \<not> IS_SRAM1_ADDRESS env addr \<and> \<not> IS_SRAM2_ADDRESS env addr \<and>
      \<not> IS_BKPSRAM_ADDRESS env addr \<and> \<not> IS_SYSMEM_ADDRESS env addr)"
  by (simp add: cbl_VerifyJumpAddress_def)

text \<open>The register block of GPIOA at \<open>0x40020000\<close> on the STM32F407 memory map.\<close>

theorem verify_jump_address_total_witness:
  "\<not> IS_FLASH_ADDRESS (board_env (C_int 12)) 0x40020000 \<and>
   \<not> IS_CCMDATARAM_ADDRESS (board_env (C_int 12)) 0x40020000 \<and>
   \<not> IS_SRAM1_ADDRESS (board_env (C_int 12)) 0x40020000 \<and>
   \<not> IS_SRAM2_ADDRESS (board_env (C_int 12)) 0x40020000 \<and>
   \<not> IS_BKPSRAM_ADDRESS (board_env (C_int 12)) 0x40020000 \<and>
   \<not> IS_SYSMEM_ADDRESS (board_env (C_int 12)) 0x40020000 \<and>
   cbl_VerifyJumpAddress (board_env (C_int 12)) 0x40020000 = CBL_ERR_JUMP_INV_ADDR"
proof -
  have none:
    "\<not> IS_FLASH_ADDRESS (board_env (C_int 12)) 0x40020000 \<and>
     \<not> IS_CCMDATARAM_ADDRESS (board_env (C_int 12)) 0x40020000 \<and>
     \<not> IS_SRAM1_ADDRESS (board_env (C_int 12)) 0x40020000 \<and>
     \<not> IS_SRAM2_ADDRESS (board_env (C_int 12)) 0x40020000 \<and>
     \<not> IS_BKPSRAM_ADDRESS (board_env (C_int 12)) 0x40020000 \<and>
     \<not> IS_SYSMEM_ADDRESS (board_env (C_int 12)) 0x40020000"
    by (simp add: board_env_def in_range_def)
  show ?thesis
    using none verify_jump_address_total [of "board_env (C_int 12)" "0x40020000"]
    by blast
qed


section \<open>The jump handler\<close>

text \<open>
  C2. In \<open>cbl_HandleCmdJumpTo\<close>, for every address text found under the key \<open>addr\<close>:
  when validation of the parsed address gives \<open>CBL_ERR_JUMP_INV_ADDR\<close> the handler
  returns that code and does nothing else, in particular does not jump; every jump
  the handler performs goes to a parsed address that validation accepted, plus one;
  and when validation accepts the address and the reply is sent, the handler jumps to
  that address plus one.
\<close>

theorem jump_only_after_validation:
  "(\<forall>charAddr.
      cbl_ParserGetArgVal p CBL_TXTCMD_JUMP_TO_ADDR (length CBL_TXTCMD_JUMP_TO_ADDR)
        = Some charAddr \<longrightarrow>
      cbl_VerifyJumpAddress env (strtoul env (c_str (cmd p) charAddr) 16)
        = CBL_ERR_JUMP_INV_ADDR \<longrightarrow>
      cbl_HandleCmdJumpTo env p = (CBL_ERR_JUMP_INV_ADDR, [])) \<and>
   (\<forall>target.
      Jump target \<in> set (snd (cbl_HandleCmdJumpTo env p)) \<longrightarrow>
      (\<exists>charAddr.
          cbl_ParserGetArgVal p CBL_TXTCMD_JUMP_TO_ADDR (length CBL_TXTCMD_JUMP_TO_ADDR)
            = Some charAddr \<and>
          cbl_VerifyJumpAddress env (strtoul env (c_str (cmd p) charAddr) 16) = CBL_ERR_OK \<and>
          target = strtoul env (c_str (cmd p) charAddr) 16 + 1)) \<and>
   (\<forall>charAddr.
      cbl_ParserGetArgVal p CBL_TXTCMD_JUMP_TO_ADDR (length CBL_TXTCMD_JUMP_TO_ADDR)
        = Some charAddr \<longrightarrow>
      cbl_VerifyJumpAddress env (strtoul env (c_str (cmd p) charAddr) 16) = CBL_ERR_OK \<longrightarrow>
      HAL_UART_Transmit env (CBL_TXT_SUCCESS env) = HAL_OK \<longrightarrow>
      cbl_HandleCmdJumpTo env p =
        (CBL_ERR_OK,
         [UART_Tx (CBL_TXT_SUCCESS env), Jump (strtoul env (c_str (cmd p) charAddr) 16 + 1)]))"
  by (auto simp: cbl_HandleCmdJumpTo_def Let_def cbl_SendToHost_def
      split: option.splits if_splits)

lemmas parse_eval =
  parse_line_def cbl_ParseCmd_def strlwr_def tolower_def NUL_def memchr_def

lemmas lookup_eval =
  cbl_ParserGetArgVal_def strlen_def c_str_def NUL_def strncmp_eq_def
  CBL_TXTCMD_JUMP_TO_ADDR_def CBL_TXTCMD_FLASH_ERASE_TYPE_def CBL_TXTCMD_FLASH_ERASE_SECT_def
  CBL_TXTCMD_FLASH_ERASE_COUNT_def CBL_TXTCMD_FLASH_ERASE_TYPE_MASS_def
  CBL_TXTCMD_FLASH_ERASE_TYPE_SECT_def

lemmas strtoul_eval = libc_strtoul_def isspace_def digit_val_def Let_def

lemma int_ge_const_iff:
  "0 \<le> i \<Longrightarrow> i < 2 ^ 32 \<Longrightarrow> int_ge_const i c = (const_val c \<le> i)"
  by (cases c) (simp_all add: word_le_def uint_word_of_int take_bit_int_eq_self)

lemma parse_jump_bad:
  "parse_line ''jump-to addr=0x12345678'' =
     \<lparr>cmd = ''jump-to'' @ [NUL] @ ''addr'' @ [NUL] @ ''0x12345678'' @ [NUL],
      len = 23, args = [(8, 13)], numOfArgs = 1\<rparr>"
  by (simp add: parse_eval)

lemma parse_jump_good:
  "parse_line ''jump-to addr=0x08008000'' =
     \<lparr>cmd = ''jump-to'' @ [NUL] @ ''addr'' @ [NUL] @ ''0x08008000'' @ [NUL],
      len = 23, args = [(8, 13)], numOfArgs = 1\<rparr>"
  by (simp add: parse_eval)

lemma strtoul_bad: "libc_strtoul ''0x12345678'' 16 = 0x12345678"
  by (simp add: strtoul_eval)

lemma strtoul_good: "libc_strtoul ''0x08008000'' 16 = 0x08008000"
  by (simp add: strtoul_eval)

theorem jump_only_after_validation_witness:
  "cbl_ParserGetArgVal (parse_line ''jump-to addr=0x12345678'') CBL_TXTCMD_JUMP_TO_ADDR
     (length CBL_TXTCMD_JUMP_TO_ADDR) = Some 13 \<and>
   cbl_VerifyJumpAddress (board_env (C_int 12))
     (strtoul (board_env (C_int 12)) (c_str (cmd (parse_line ''jump-to addr=0x12345678'')) 13) 16)
     = CBL_ERR_JUMP_INV_ADDR \<and>
   cbl_HandleCmdJumpTo (board_env (C_int 12)) (parse_line ''jump-to addr=0x12345678'')
     = (CBL_ERR_JUMP_INV_ADDR, []) \<and>
   cbl_ParserGetArgVal (parse_line ''jump-to addr=0x08008000'') CBL_TXTCMD_JUMP_TO_ADDR
     (length CBL_TXTCMD_JUMP_TO_ADDR) = Some 13 \<and>
   cbl_VerifyJumpAddress (board_env (C_int 12))
     (strtoul (board_env (C_int 12)) (c_str (cmd (parse_line ''jump-to addr=0x08008000'')) 13) 16)
     = CBL_ERR_OK \<and>
   HAL_UART_Transmit (board_env (C_int 12)) (CBL_TXT_SUCCESS (board_env (C_int 12))) = HAL_OK \<and>
   cbl_HandleCmdJumpTo (board_env (C_int 12)) (parse_line ''jump-to addr=0x08008000'')
     = (CBL_ERR_OK, [UART_Tx (CBL_TXT_SUCCESS (board_env (C_int 12))), Jump 0x08008001])"
proof -
  have look_bad:
    "cbl_ParserGetArgVal (parse_line ''jump-to addr=0x12345678'') CBL_TXTCMD_JUMP_TO_ADDR
       (length CBL_TXTCMD_JUMP_TO_ADDR) = Some 13"
    by (simp add: parse_jump_bad lookup_eval)
  have addr_bad:
    "strtoul (board_env (C_int 12)) (c_str (cmd (parse_line ''jump-to addr=0x12345678'')) 13) 16
       = 0x12345678"
    by (simp add: parse_jump_bad board_env_def c_str_def NUL_def strtoul_bad)
  have verify_bad:
    "cbl_VerifyJumpAddress (board_env (C_int 12))
       (strtoul (board_env (C_int 12)) (c_str (cmd (parse_line ''jump-to addr=0x12345678'')) 13) 16)
       = CBL_ERR_JUMP_INV_ADDR"
    unfolding addr_bad by (simp add: cbl_VerifyJumpAddress_def board_env_def in_range_def)
  have look_good:
    "cbl_ParserGetArgVal (parse_line ''jump-to addr=0x08008000'') CBL_TXTCMD_JUMP_TO_ADDR
       (length CBL_TXTCMD_JUMP_TO_ADDR) = Some 13"
    by (simp add: parse_jump_good lookup_eval)
  have addr_good:
    "strtoul (board_env (C_int 12)) (c_str (cmd (parse_line ''jump-to addr=0x08008000'')) 13) 16
       = 0x08008000"
    by (simp add: parse_jump_good board_env_def c_str_def NUL_def strtoul_good)
  have verify_good:
    "cbl_VerifyJumpAddress (board_env (C_int 12))
       (strtoul (board_env (C_int 12)) (c_str (cmd (parse_line ''jump-to addr=0x08008000'')) 13) 16)
       = CBL_ERR_OK"
    unfolding addr_good by (simp add: cbl_VerifyJumpAddress_def board_env_def in_range_def)
  have tx: "HAL_UART_Transmit (board_env (C_int 12)) (CBL_TXT_SUCCESS (board_env (C_int 12))) = HAL_OK"
    by (simp add: board_env_def)
  have bad:
    "cbl_HandleCmdJumpTo (board_env (C_int 12)) (parse_line ''jump-to addr=0x12345678'')
       = (CBL_ERR_JUMP_INV_ADDR, [])"
    using look_bad verify_bad
      jump_only_after_validation [of "parse_line ''jump-to addr=0x12345678''" "board_env (C_int 12)"]
    by blast
  have good:
    "cbl_HandleCmdJumpTo (board_env (C_int 12)) (parse_line ''jump-to addr=0x08008000'')
       = (CBL_ERR_OK, [UART_Tx (CBL_TXT_SUCCESS (board_env (C_int 12))),
            Jump (strtoul (board_env (C_int 12))
                    (c_str (cmd (parse_line ''jump-to addr=0x08008000'')) 13) 16 + 1)])"
    using look_good verify_good tx
      jump_only_after_validation [of "parse_line ''jump-to addr=0x08008000''" "board_env (C_int 12)"]
    by blast
  show ?thesis
    using look_bad verify_bad bad look_good verify_good tx good
    by (simp add: addr_good)
qed

section \<open>The range checks of the erase handler\<close>

lemma flash_erase_sector_branch:
  assumes "cbl_ParserGetArgVal p CBL_TXTCMD_FLASH_ERASE_TYPE (length CBL_TXTCMD_FLASH_ERASE_TYPE)
             = Some type"
    and "strncmp_eq (c_str (cmd p) type) CBL_TXTCMD_FLASH_ERASE_TYPE_SECT
           (length CBL_TXTCMD_FLASH_ERASE_TYPE_SECT)"
    and "cbl_ParserGetArgVal p CBL_TXTCMD_FLASH_ERASE_SECT (length CBL_TXTCMD_FLASH_ERASE_SECT)
           = Some charSect"
    and "sect = (ucast (strtoul env (c_str (cmd p) charSect) 10) :: 8 word)"
  shows "cbl_HandleCmdFlashErase env p =
     (if int_ge_const (uint sect) (FLASH_SECTOR_TOTAL env) then (CBL_ERR_INV_SECT, [])
      else
        (case cbl_ParserGetArgVal p CBL_TXTCMD_FLASH_ERASE_COUNT
                (length CBL_TXTCMD_FLASH_ERASE_COUNT) of
           None \<Rightarrow> (CBL_ERR_NEED_PARAM, [])
         | Some charCount \<Rightarrow>
             if int_ge_const
                  (uint sect + uint (ucast (strtoul env (c_str (cmd p) charCount) 10) :: 8 word) - 1)
                  (FLASH_SECTOR_TOTAL env)
             then (CBL_ERR_INV_SECT_COUNT, [])
             else flash_erase_run env
                    (sector_settings sect (ucast (strtoul env (c_str (cmd p) charCount) 10)))))"
  using assms
  by (auto simp add: cbl_HandleCmdFlashErase_def Let_def sector_settings_def split: option.splits)

lemma uint8_bounds: "0 \<le> uint (x :: 8 word) \<and> uint x < 256"
  using uint_bounded [of x] by simp

lemma sect_ge_iff: "int_ge_const (uint (sect :: 8 word)) c = (const_val c \<le> uint sect)"
  using uint8_bounds [of sect] by (intro int_ge_const_iff) auto

lemma last_ge_if:
  assumes "const_val c \<le> uint (sect :: 8 word) + uint (count :: 8 word) - 1"
    and "uint sect < const_val c"
  shows "int_ge_const (uint sect + uint count - 1) c"
proof -
  have "0 \<le> uint sect + uint count - 1"
    using assms uint8_bounds [of sect] by linarith
  moreover have "uint sect + uint count - 1 < 2 ^ 32"
    using uint8_bounds [of sect] uint8_bounds [of count] by simp
  ultimately show ?thesis
    using assms(1) by (simp add: int_ge_const_iff)
qed

lemma parse_erase_2_3:
  "parse_line ''flash-erase type=sector sector=2 count=3'' =
     \<lparr>cmd = ''flash-erase'' @ [NUL] @ ''type'' @ [NUL] @ ''sector'' @ [NUL] @ ''sector'' @ [NUL] @
        ''2'' @ [NUL] @ ''count'' @ [NUL] @ ''3'' @ [NUL],
      len = 40, args = [(12, 17), (24, 31), (33, 39)], numOfArgs = 3\<rparr>"
  by (simp add: parse_eval)

lemma parse_erase_10_5:
  "parse_line ''flash-erase type=sector sector=10 count=5'' =
     \<lparr>cmd = ''flash-erase'' @ [NUL] @ ''type'' @ [NUL] @ ''sector'' @ [NUL] @ ''sector'' @ [NUL] @
        ''10'' @ [NUL] @ ''count'' @ [NUL] @ ''5'' @ [NUL],
      len = 41, args = [(12, 17), (24, 31), (34, 40)], numOfArgs = 3\<rparr>"
  by (simp add: parse_eval)

lemma parse_erase_12_1:
  "parse_line ''flash-erase type=sector sector=12 count=1'' =
     \<lparr>cmd = ''flash-erase'' @ [NUL] @ ''type'' @ [NUL] @ ''sector'' @ [NUL] @ ''sector'' @ [NUL] @
        ''12'' @ [NUL] @ ''count'' @ [NUL] @ ''1'' @ [NUL],
      len = 41, args = [(12, 17), (24, 31), (34, 40)], numOfArgs = 3\<rparr>"
  by (simp add: parse_eval)

lemma parse_erase_0_0:
  "parse_line ''flash-erase type=sector sector=0 count=0'' =
     \<lparr>cmd = ''flash-erase'' @ [NUL] @ ''type'' @ [NUL] @ ''sector'' @ [NUL] @ ''sector'' @ [NUL] @
        ''0'' @ [NUL] @ ''count'' @ [NUL] @ ''0'' @ [NUL],
      len = 40, args = [(12, 17), (24, 31), (33, 39)], numOfArgs = 3\<rparr>"
  by (simp add: parse_eval)

lemma strtoul_small:
  "libc_strtoul ''0'' 10 = 0" "libc_strtoul ''1'' 10 = 1" "libc_strtoul ''2'' 10 = 2"
  "libc_strtoul ''3'' 10 = 3" "libc_strtoul ''5'' 10 = 5" "libc_strtoul ''10'' 10 = 10"
  "libc_strtoul ''12'' 10 = 12" "libc_strtoul ''256'' 10 = 256"
  by (simp_all add: strtoul_eval)

lemma erase_2_3:
  "const_val c = 12 \<Longrightarrow>
   cbl_HandleCmdFlashErase (board_env c) (parse_line ''flash-erase type=sector sector=2 count=3'')
     = flash_erase_run (board_env c) (sector_settings 2 3)"
  apply (subst flash_erase_sector_branch [where type = 17 and charSect = 31 and sect = 2])
      apply (simp_all add: parse_erase_2_3 lookup_eval board_env_def strtoul_small sect_ge_iff)
  apply (simp add: int_ge_const_iff)
  done


lemma erase_10_5:
  "const_val c = 12 \<Longrightarrow>
   cbl_HandleCmdFlashErase (board_env c) (parse_line ''flash-erase type=sector sector=10 count=5'')
     = (CBL_ERR_INV_SECT_COUNT, [])"
  apply (subst flash_erase_sector_branch [where type = 17 and charSect = 31 and sect = 10])
      apply (simp_all add: parse_erase_10_5 lookup_eval board_env_def strtoul_small sect_ge_iff)
  apply (simp add: int_ge_const_iff)
  done

lemma flash_erase_run_board:
  "flash_erase_run (board_env c) settings =
     (CBL_ERR_OK,
      [LED_ON BLUE, FLASH_Unlock, FLASHEx_Erase settings, LED_OFF BLUE, FLASH_Lock,
       UART_Tx (CBL_TXT_SUCCESS (board_env c))])"
  by (simp add: flash_erase_run_def board_env_def cbl_SendToHost_def)

text \<open>
  The two range checks as the handler performs them, on the 8-bit values. For a request
  of type \<open>sector\<close>, with \<open>sect\<close> the 8-bit value the handler converts the
  \<open>sector\<close> argument to and \<open>count\<close> the one it converts the \<open>count\<close>
  argument to: the handler returns \<open>CBL_ERR_INV_SECT\<close> when
  \<open>sect \<ge> FLASH_SECTOR_TOTAL\<close>, and \<open>CBL_ERR_INV_SECT_COUNT\<close> when the first check
  passes and \<open>sect + count - 1 \<ge> FLASH_SECTOR_TOTAL\<close>; in both cases nothing has been
  done to the hardware (no event: no unlock, no erase). With \<open>FLASH_SECTOR_TOTAL\<close> of
  value 12, of either type, \<open>sector=2 count=3\<close> passes both checks and the erase runs,
  and \<open>sector=10 count=5\<close> returns \<open>CBL_ERR_INV_SECT_COUNT\<close>. The 8-bit values are
  the arguments of the request only when these are below 256; what the handler does
  with larger arguments is the subject of the last theorem of this section.
\<close>

lemma flash_erase_sector_range_checked:
  "(\<forall>type charSect sect.
      cbl_ParserGetArgVal p CBL_TXTCMD_FLASH_ERASE_TYPE (length CBL_TXTCMD_FLASH_ERASE_TYPE)
        = Some type \<longrightarrow>
      strncmp_eq (c_str (cmd p) type) CBL_TXTCMD_FLASH_ERASE_TYPE_SECT
        (length CBL_TXTCMD_FLASH_ERASE_TYPE_SECT) \<longrightarrow>
      cbl_ParserGetArgVal p CBL_TXTCMD_FLASH_ERASE_SECT (length CBL_TXTCMD_FLASH_ERASE_SECT)
        = Some charSect \<longrightarrow>
      sect = (ucast (strtoul env (c_str (cmd p) charSect) 10) :: 8 word) \<longrightarrow>
      (const_val (FLASH_SECTOR_TOTAL env) \<le> uint sect \<longrightarrow>
         cbl_HandleCmdFlashErase env p = (CBL_ERR_INV_SECT, [])) \<and>
      (\<forall>charCount count.
         cbl_ParserGetArgVal p CBL_TXTCMD_FLASH_ERASE_COUNT (length CBL_TXTCMD_FLASH_ERASE_COUNT)
           = Some charCount \<longrightarrow>
         count = (ucast (strtoul env (c_str (cmd p) charCount) 10) :: 8 word) \<longrightarrow>
         uint sect < const_val (FLASH_SECTOR_TOTAL env) \<longrightarrow>
         const_val (FLASH_SECTOR_TOTAL env) \<le> uint sect + uint count - 1 \<longrightarrow>
         cbl_HandleCmdFlashErase env p = (CBL_ERR_INV_SECT_COUNT, []))) \<and>
   (\<forall>c. const_val c = 12 \<longrightarrow>
      cbl_HandleCmdFlashErase (board_env c)
          (parse_line ''flash-erase type=sector sector=2 count=3'')
        = (CBL_ERR_OK,
           [LED_ON BLUE, FLASH_Unlock, FLASHEx_Erase (sector_settings 2 3), LED_OFF BLUE,
            FLASH_Lock, UART_Tx (CBL_TXT_SUCCESS (board_env c))]) \<and>
      cbl_HandleCmdFlashErase (board_env c)
          (parse_line ''flash-erase type=sector sector=10 count=5'')
        = (CBL_ERR_INV_SECT_COUNT, []))"
proof (intro conjI allI impI)
  fix type charSect and sect :: "8 word"
  assume a: "cbl_ParserGetArgVal p CBL_TXTCMD_FLASH_ERASE_TYPE (length CBL_TXTCMD_FLASH_ERASE_TYPE)
        = Some type"
    "strncmp_eq (c_str (cmd p) type) CBL_TXTCMD_FLASH_ERASE_TYPE_SECT
        (length CBL_TXTCMD_FLASH_ERASE_TYPE_SECT)"
    "cbl_ParserGetArgVal p CBL_TXTCMD_FLASH_ERASE_SECT (length CBL_TXTCMD_FLASH_ERASE_SECT)
        = Some charSect"
    "sect = ucast (strtoul env (c_str (cmd p) charSect) 10)"
  note branch = flash_erase_sector_branch [OF a]
  {
    assume "const_val (FLASH_SECTOR_TOTAL env) \<le> uint sect"
    then show "cbl_HandleCmdFlashErase env p = (CBL_ERR_INV_SECT, [])"
      by (simp add: branch sect_ge_iff)
  next
    fix charCount and count :: "8 word"
    assume b: "cbl_ParserGetArgVal p CBL_TXTCMD_FLASH_ERASE_COUNT
          (length CBL_TXTCMD_FLASH_ERASE_COUNT) = Some charCount"
      "count = ucast (strtoul env (c_str (cmd p) charCount) 10)"
      and lt: "uint sect < const_val (FLASH_SECTOR_TOTAL env)"
      and ge: "const_val (FLASH_SECTOR_TOTAL env) \<le> uint sect + uint count - 1"
    have "int_ge_const (uint sect + uint count - 1) (FLASH_SECTOR_TOTAL env)"
      using ge lt by (rule last_ge_if)
    then show "cbl_HandleCmdFlashErase env p = (CBL_ERR_INV_SECT_COUNT, [])"
      using b lt by (simp add: branch sect_ge_iff)
  }
next
  fix c assume "const_val c = 12"
  then show "cbl_HandleCmdFlashErase (board_env c)
          (parse_line ''flash-erase type=sector sector=2 count=3'')
        = (CBL_ERR_OK,
           [LED_ON BLUE, FLASH_Unlock, FLASHEx_Erase (sector_settings 2 3), LED_OFF BLUE,
            FLASH_Lock, UART_Tx (CBL_TXT_SUCCESS (board_env c))])"
    by (simp add: erase_2_3 flash_erase_run_board)
next
  fix c assume "const_val c = 12"
  then show "cbl_HandleCmdFlashErase (board_env c)
          (parse_line ''flash-erase type=sector sector=10 count=5'')
        = (CBL_ERR_INV_SECT_COUNT, [])"
    by (rule erase_10_5)
qed

text \<open>
  C10, as amended. For a flash-erase request of type \<open>sector\<close> whose count converts
  to 0 and whose sector is below \<open>FLASH_SECTOR_TOTAL\<close>: both checks pass, and the
  handler goes on to unlock the flash and, when the unlock succeeds, to call the
  hardware erase with \<open>NbSectors = 0\<close>; it returns neither \<open>CBL_ERR_INV_SECT\<close> nor
  \<open>CBL_ERR_INV_SECT_COUNT\<close>. This holds for the sectors from 1 on whatever the type
  of the constant, and for sector 0 when the constant is an \<open>int\<close>, the comparison of
  \<open>0 + 0 - 1 = -1\<close> then being one of \<open>int\<close> values.
\<close>

theorem flash_erase_zero_count_passes:
  assumes "cbl_ParserGetArgVal p CBL_TXTCMD_FLASH_ERASE_TYPE (length CBL_TXTCMD_FLASH_ERASE_TYPE)
             = Some type"
    and "strncmp_eq (c_str (cmd p) type) CBL_TXTCMD_FLASH_ERASE_TYPE_SECT
           (length CBL_TXTCMD_FLASH_ERASE_TYPE_SECT)"
    and "cbl_ParserGetArgVal p CBL_TXTCMD_FLASH_ERASE_SECT (length CBL_TXTCMD_FLASH_ERASE_SECT)
           = Some charSect"
    and "sect = (ucast (strtoul env (c_str (cmd p) charSect) 10) :: 8 word)"
    and count: "cbl_ParserGetArgVal p CBL_TXTCMD_FLASH_ERASE_COUNT
           (length CBL_TXTCMD_FLASH_ERASE_COUNT) = Some charCount"
      "(ucast (strtoul env (c_str (cmd p) charCount) 10) :: 8 word) = 0"
    and below: "uint sect < const_val (FLASH_SECTOR_TOTAL env)"
    and typed: "(\<exists>k. FLASH_SECTOR_TOTAL env = C_int k) \<or> sect \<noteq> 0"
  shows "cbl_HandleCmdFlashErase env p = flash_erase_run env (sector_settings sect 0) \<and>
         NbSectors (sector_settings sect 0) = Some 0 \<and>
         take 2 (snd (cbl_HandleCmdFlashErase env p)) = [LED_ON BLUE, FLASH_Unlock] \<and>
         (HAL_FLASH_Unlock env = HAL_OK \<longrightarrow>
            FLASHEx_Erase (sector_settings sect 0) \<in> set (snd (cbl_HandleCmdFlashErase env p))) \<and>
         fst (cbl_HandleCmdFlashErase env p) \<noteq> CBL_ERR_INV_SECT \<and>
         fst (cbl_HandleCmdFlashErase env p) \<noteq> CBL_ERR_INV_SECT_COUNT"
proof -
  have first: "\<not> int_ge_const (uint sect) (FLASH_SECTOR_TOTAL env)"
    using below by (simp add: sect_ge_iff)
  have second: "\<not> int_ge_const (uint sect + uint (0 :: 8 word) - 1) (FLASH_SECTOR_TOTAL env)"
  proof (cases "sect = 0")
    case True
    with typed obtain k where k: "FLASH_SECTOR_TOTAL env = C_int k"
      by blast
    show ?thesis
      using below True by (simp add: k)
  next
    case False
    then have "uint sect \<noteq> 0"
      by (simp add: uint_0_iff)
    then have "0 < uint sect"
      using uint8_bounds [of sect] by linarith
    then have "0 \<le> uint sect + uint (0 :: 8 word) - 1"
      by simp
    moreover have "uint sect + uint (0 :: 8 word) - 1 < 2 ^ 32"
      using uint8_bounds [of sect] by simp
    ultimately show ?thesis
      using below by (simp add: int_ge_const_iff)
  qed
  have run: "cbl_HandleCmdFlashErase env p = flash_erase_run env (sector_settings sect 0)"
    using count first second
    by (simp add: flash_erase_sector_branch [OF assms(1-4)])
  show ?thesis
    unfolding run
    by (auto simp: flash_erase_run_def sector_settings_def cbl_SendToHost_def Let_def
        split: prod.splits)
qed

text \<open>
  When the constant is an \<open>unsigned int\<close> (\<open>12U\<close>), the \<open>-1\<close> of sector 0 with
  count 0 is converted to \<open>4294967295\<close> and that one request is rejected.
\<close>

lemma flash_erase_zero_count_unsigned:
  assumes "cbl_ParserGetArgVal p CBL_TXTCMD_FLASH_ERASE_TYPE (length CBL_TXTCMD_FLASH_ERASE_TYPE)
             = Some type"
    and "strncmp_eq (c_str (cmd p) type) CBL_TXTCMD_FLASH_ERASE_TYPE_SECT
           (length CBL_TXTCMD_FLASH_ERASE_TYPE_SECT)"
    and "cbl_ParserGetArgVal p CBL_TXTCMD_FLASH_ERASE_SECT (length CBL_TXTCMD_FLASH_ERASE_SECT)
           = Some charSect"
    and "(0 :: 8 word) = ucast (strtoul env (c_str (cmd p) charSect) 10)"
    and count: "cbl_ParserGetArgVal p CBL_TXTCMD_FLASH_ERASE_COUNT
           (length CBL_TXTCMD_FLASH_ERASE_COUNT) = Some charCount"
      "(ucast (strtoul env (c_str (cmd p) charCount) 10) :: 8 word) = 0"
    and unsigned: "FLASH_SECTOR_TOTAL env = C_uint k"
    and pos: "0 < k"
  shows "cbl_HandleCmdFlashErase env p = (CBL_ERR_INV_SECT_COUNT, [])"
proof -
  have "\<not> k \<le> 0"
    using pos by (simp add: word_le_def word_less_def)
  then show ?thesis
    using count unsigned
    by (simp add: flash_erase_sector_branch [OF assms(1-4)] word_n1_ge)
qed


lemma erase_lookups_12_1:
  "cbl_ParserGetArgVal (parse_line ''flash-erase type=sector sector=12 count=1'')
     CBL_TXTCMD_FLASH_ERASE_TYPE (length CBL_TXTCMD_FLASH_ERASE_TYPE) = Some 17"
  "strncmp_eq (c_str (cmd (parse_line ''flash-erase type=sector sector=12 count=1'')) 17)
     CBL_TXTCMD_FLASH_ERASE_TYPE_SECT (length CBL_TXTCMD_FLASH_ERASE_TYPE_SECT)"
  "cbl_ParserGetArgVal (parse_line ''flash-erase type=sector sector=12 count=1'')
     CBL_TXTCMD_FLASH_ERASE_SECT (length CBL_TXTCMD_FLASH_ERASE_SECT) = Some 31"
  "(12 :: 8 word) = ucast (strtoul (board_env c)
     (c_str (cmd (parse_line ''flash-erase type=sector sector=12 count=1'')) 31) 10)"
  by (simp_all add: parse_erase_12_1 lookup_eval board_env_def strtoul_small)

lemma erase_lookups_10_5:
  "cbl_ParserGetArgVal (parse_line ''flash-erase type=sector sector=10 count=5'')
     CBL_TXTCMD_FLASH_ERASE_TYPE (length CBL_TXTCMD_FLASH_ERASE_TYPE) = Some 17"
  "strncmp_eq (c_str (cmd (parse_line ''flash-erase type=sector sector=10 count=5'')) 17)
     CBL_TXTCMD_FLASH_ERASE_TYPE_SECT (length CBL_TXTCMD_FLASH_ERASE_TYPE_SECT)"
  "cbl_ParserGetArgVal (parse_line ''flash-erase type=sector sector=10 count=5'')
     CBL_TXTCMD_FLASH_ERASE_SECT (length CBL_TXTCMD_FLASH_ERASE_SECT) = Some 31"
  "(10 :: 8 word) = ucast (strtoul (board_env c)
     (c_str (cmd (parse_line ''flash-erase type=sector sector=10 count=5'')) 31) 10)"
  "cbl_ParserGetArgVal (parse_line ''flash-erase type=sector sector=10 count=5'')
     CBL_TXTCMD_FLASH_ERASE_COUNT (length CBL_TXTCMD_FLASH_ERASE_COUNT) = Some 40"
  "(5 :: 8 word) = ucast (strtoul (board_env c)
     (c_str (cmd (parse_line ''flash-erase type=sector sector=10 count=5'')) 40) 10)"
  by (simp_all add: parse_erase_10_5 lookup_eval board_env_def strtoul_small)

lemma erase_lookups_0_0:
  "cbl_ParserGetArgVal (parse_line ''flash-erase type=sector sector=0 count=0'')
     CBL_TXTCMD_FLASH_ERASE_TYPE (length CBL_TXTCMD_FLASH_ERASE_TYPE) = Some 17"
  "strncmp_eq (c_str (cmd (parse_line ''flash-erase type=sector sector=0 count=0'')) 17)
     CBL_TXTCMD_FLASH_ERASE_TYPE_SECT (length CBL_TXTCMD_FLASH_ERASE_TYPE_SECT)"
  "cbl_ParserGetArgVal (parse_line ''flash-erase type=sector sector=0 count=0'')
     CBL_TXTCMD_FLASH_ERASE_SECT (length CBL_TXTCMD_FLASH_ERASE_SECT) = Some 31"
  "(0 :: 8 word) = ucast (strtoul (board_env c)
     (c_str (cmd (parse_line ''flash-erase type=sector sector=0 count=0'')) 31) 10)"
  "cbl_ParserGetArgVal (parse_line ''flash-erase type=sector sector=0 count=0'')
     CBL_TXTCMD_FLASH_ERASE_COUNT (length CBL_TXTCMD_FLASH_ERASE_COUNT) = Some 39"
  "(ucast (strtoul (board_env c)
     (c_str (cmd (parse_line ''flash-erase type=sector sector=0 count=0'')) 39) 10) :: 8 word) = 0"
  by (simp_all add: parse_erase_0_0 lookup_eval board_env_def strtoul_small)

lemma parse_erase_1_0:
  "parse_line ''flash-erase type=sector sector=1 count=0'' =
     \<lparr>cmd = ''flash-erase'' @ [NUL] @ ''type'' @ [NUL] @ ''sector'' @ [NUL] @ ''sector'' @ [NUL] @
        ''1'' @ [NUL] @ ''count'' @ [NUL] @ ''0'' @ [NUL],
      len = 40, args = [(12, 17), (24, 31), (33, 39)], numOfArgs = 3\<rparr>"
  by (simp add: parse_eval)

lemma erase_lookups_1_0:
  "cbl_ParserGetArgVal (parse_line ''flash-erase type=sector sector=1 count=0'')
     CBL_TXTCMD_FLASH_ERASE_TYPE (length CBL_TXTCMD_FLASH_ERASE_TYPE) = Some 17"
  "strncmp_eq (c_str (cmd (parse_line ''flash-erase type=sector sector=1 count=0'')) 17)
     CBL_TXTCMD_FLASH_ERASE_TYPE_SECT (length CBL_TXTCMD_FLASH_ERASE_TYPE_SECT)"
  "cbl_ParserGetArgVal (parse_line ''flash-erase type=sector sector=1 count=0'')
     CBL_TXTCMD_FLASH_ERASE_SECT (length CBL_TXTCMD_FLASH_ERASE_SECT) = Some 31"
  "(1 :: 8 word) = ucast (strtoul (board_env c)
     (c_str (cmd (parse_line ''flash-erase type=sector sector=1 count=0'')) 31) 10)"
  "cbl_ParserGetArgVal (parse_line ''flash-erase type=sector sector=1 count=0'')
     CBL_TXTCMD_FLASH_ERASE_COUNT (length CBL_TXTCMD_FLASH_ERASE_COUNT) = Some 39"
  "(ucast (strtoul (board_env c)
     (c_str (cmd (parse_line ''flash-erase type=sector sector=1 count=0'')) 39) 10) :: 8 word) = 0"
  by (simp_all add: parse_erase_1_0 lookup_eval board_env_def strtoul_small)

lemma flash_erase_sector_range_checked_witness:
  "const_val (FLASH_SECTOR_TOTAL (board_env (C_uint 12))) \<le> uint (12 :: 8 word) \<and>
   cbl_HandleCmdFlashErase (board_env (C_uint 12))
       (parse_line ''flash-erase type=sector sector=12 count=1'') = (CBL_ERR_INV_SECT, []) \<and>
   uint (10 :: 8 word) < const_val (FLASH_SECTOR_TOTAL (board_env (C_uint 12))) \<and>
   const_val (FLASH_SECTOR_TOTAL (board_env (C_uint 12)))
     \<le> uint (10 :: 8 word) + uint (5 :: 8 word) - 1 \<and>
   cbl_HandleCmdFlashErase (board_env (C_uint 12))
       (parse_line ''flash-erase type=sector sector=10 count=5'') = (CBL_ERR_INV_SECT_COUNT, []) \<and>
   const_val (C_int 12) = 12 \<and>
   cbl_HandleCmdFlashErase (board_env (C_int 12))
       (parse_line ''flash-erase type=sector sector=2 count=3'')
     = (CBL_ERR_OK,
        [LED_ON BLUE, FLASH_Unlock, FLASHEx_Erase (sector_settings 2 3), LED_OFF BLUE,
         FLASH_Lock, UART_Tx (CBL_TXT_SUCCESS (board_env (C_int 12)))])"
proof -
  have total: "const_val (FLASH_SECTOR_TOTAL (board_env (C_uint 12))) = 12"
    by (simp add: board_env_def)
  have ge: "const_val (FLASH_SECTOR_TOTAL (board_env (C_uint 12))) \<le> uint (12 :: 8 word)"
    by (simp add: total)
  have lt: "uint (10 :: 8 word) < const_val (FLASH_SECTOR_TOTAL (board_env (C_uint 12)))"
    by (simp add: total)
  have last: "const_val (FLASH_SECTOR_TOTAL (board_env (C_uint 12)))
     \<le> uint (10 :: 8 word) + uint (5 :: 8 word) - 1"
    by (simp add: total)
  have twelve: "const_val (C_int 12) = 12"
    by simp
  have inv_sect: "cbl_HandleCmdFlashErase (board_env (C_uint 12))
       (parse_line ''flash-erase type=sector sector=12 count=1'') = (CBL_ERR_INV_SECT, [])"
    using ge erase_lookups_12_1
      flash_erase_sector_range_checked
        [of "parse_line ''flash-erase type=sector sector=12 count=1''" "board_env (C_uint 12)"]
    by blast
  have inv_count: "cbl_HandleCmdFlashErase (board_env (C_uint 12))
       (parse_line ''flash-erase type=sector sector=10 count=5'') = (CBL_ERR_INV_SECT_COUNT, [])"
    using lt last erase_lookups_10_5
      flash_erase_sector_range_checked
        [of "parse_line ''flash-erase type=sector sector=10 count=5''" "board_env (C_uint 12)"]
    by blast
  have passes: "cbl_HandleCmdFlashErase (board_env (C_int 12))
       (parse_line ''flash-erase type=sector sector=2 count=3'')
     = (CBL_ERR_OK,
        [LED_ON BLUE, FLASH_Unlock, FLASHEx_Erase (sector_settings 2 3), LED_OFF BLUE,
         FLASH_Lock, UART_Tx (CBL_TXT_SUCCESS (board_env (C_int 12)))])"
    using twelve flash_erase_sector_range_checked
        [of "parse_line ''flash-erase type=sector sector=12 count=1''" "board_env (C_uint 12)"]
    by blast
  from ge inv_sect lt last inv_count twelve passes show ?thesis
    by blast
qed

theorem flash_erase_zero_count_passes_witness:
  "FLASH_SECTOR_TOTAL (board_env (C_int 12)) = C_int 12 \<and>
   uint (0 :: 8 word) < const_val (FLASH_SECTOR_TOTAL (board_env (C_int 12))) \<and>
   cbl_HandleCmdFlashErase (board_env (C_int 12))
       (parse_line ''flash-erase type=sector sector=0 count=0'')
     = (CBL_ERR_OK,
        [LED_ON BLUE, FLASH_Unlock, FLASHEx_Erase (sector_settings 0 0), LED_OFF BLUE,
         FLASH_Lock, UART_Tx (CBL_TXT_SUCCESS (board_env (C_int 12)))]) \<and>
   (1 :: 8 word) \<noteq> 0 \<and>
   uint (1 :: 8 word) < const_val (FLASH_SECTOR_TOTAL (board_env (C_uint 12))) \<and>
   cbl_HandleCmdFlashErase (board_env (C_uint 12))
       (parse_line ''flash-erase type=sector sector=1 count=0'')
     = (CBL_ERR_OK,
        [LED_ON BLUE, FLASH_Unlock, FLASHEx_Erase (sector_settings 1 0), LED_OFF BLUE,
         FLASH_Lock, UART_Tx (CBL_TXT_SUCCESS (board_env (C_uint 12)))])"
proof -
  have signed: "FLASH_SECTOR_TOTAL (board_env (C_int 12)) = C_int 12"
    by (simp add: board_env_def)
  then have typed0: "(\<exists>k. FLASH_SECTOR_TOTAL (board_env (C_int 12)) = C_int k) \<or> (0 :: 8 word) \<noteq> 0"
    by blast
  have below0: "uint (0 :: 8 word) < const_val (FLASH_SECTOR_TOTAL (board_env (C_int 12)))"
    by (simp add: board_env_def)
  have "cbl_HandleCmdFlashErase (board_env (C_int 12))
       (parse_line ''flash-erase type=sector sector=0 count=0'')
     = flash_erase_run (board_env (C_int 12)) (sector_settings 0 0)"
    using flash_erase_zero_count_passes [OF erase_lookups_0_0 below0 typed0]
    by blast
  then have zero: "cbl_HandleCmdFlashErase (board_env (C_int 12))
       (parse_line ''flash-erase type=sector sector=0 count=0'')
     = (CBL_ERR_OK,
        [LED_ON BLUE, FLASH_Unlock, FLASHEx_Erase (sector_settings 0 0), LED_OFF BLUE,
         FLASH_Lock, UART_Tx (CBL_TXT_SUCCESS (board_env (C_int 12)))])"
    by (simp add: flash_erase_run_board)
  have nz: "(1 :: 8 word) \<noteq> 0"
    by simp
  then have typed1: "(\<exists>k. FLASH_SECTOR_TOTAL (board_env (C_uint 12)) = C_int k) \<or> (1 :: 8 word) \<noteq> 0"
    by blast
  have below1: "uint (1 :: 8 word) < const_val (FLASH_SECTOR_TOTAL (board_env (C_uint 12)))"
    by (simp add: board_env_def)
  have "cbl_HandleCmdFlashErase (board_env (C_uint 12))
       (parse_line ''flash-erase type=sector sector=1 count=0'')
     = flash_erase_run (board_env (C_uint 12)) (sector_settings 1 0)"
    using flash_erase_zero_count_passes [OF erase_lookups_1_0 below1 typed1]
    by blast
  then have one: "cbl_HandleCmdFlashErase (board_env (C_uint 12))
       (parse_line ''flash-erase type=sector sector=1 count=0'')
     = (CBL_ERR_OK,
        [LED_ON BLUE, FLASH_Unlock, FLASHEx_Erase (sector_settings 1 0), LED_OFF BLUE,
         FLASH_Lock, UART_Tx (CBL_TXT_SUCCESS (board_env (C_uint 12)))])"
    by (simp add: flash_erase_run_board)
  from signed below0 zero nz below1 one show ?thesis
    by (intro conjI)
qed

text \<open>
  With the constant \<open>12U\<close> the request \<open>sector=0 count=0\<close> does not get past the
  second check.
\<close>

theorem flash_erase_zero_count_rejected_unsigned:
  "cbl_HandleCmdFlashErase (board_env (C_uint 12))
       (parse_line ''flash-erase type=sector sector=0 count=0'') = (CBL_ERR_INV_SECT_COUNT, [])"
proof -
  have unsigned: "FLASH_SECTOR_TOTAL (board_env (C_uint 12)) = C_uint 12"
    by (simp add: board_env_def)
  show ?thesis
    by (rule flash_erase_zero_count_unsigned [OF erase_lookups_0_0 unsigned])
      simp
qed

text \<open>
  The conversion to \<open>uint8_t\<close> keeps the low 8 bits of the argument: the sector
  argument 256 is sector 0 for both checks and for the erase.
\<close>

lemma parse_erase_256_1:
  "parse_line ''flash-erase type=sector sector=256 count=1'' =
     \<lparr>cmd = ''flash-erase'' @ [NUL] @ ''type'' @ [NUL] @ ''sector'' @ [NUL] @ ''sector'' @ [NUL] @
        ''256'' @ [NUL] @ ''count'' @ [NUL] @ ''1'' @ [NUL],
      len = 42, args = [(12, 17), (24, 31), (35, 41)], numOfArgs = 3\<rparr>"
  by (simp add: parse_eval)

lemma flash_erase_sector_256:
  "cbl_HandleCmdFlashErase (board_env (C_int 12))
       (parse_line ''flash-erase type=sector sector=256 count=1'')
     = flash_erase_run (board_env (C_int 12)) (sector_settings 0 1)"
  apply (subst flash_erase_sector_branch [where type = 17 and charSect = 31 and sect = 0])
      apply (simp_all add: parse_erase_256_1 lookup_eval board_env_def strtoul_small)
  done

lemma parse_erase_2_266:
  "parse_line ''flash-erase type=sector sector=2 count=266'' =
     \<lparr>cmd = ''flash-erase'' @ [NUL] @ ''type'' @ [NUL] @ ''sector'' @ [NUL] @ ''sector'' @ [NUL] @
        ''2'' @ [NUL] @ ''count'' @ [NUL] @ ''266'' @ [NUL],
      len = 42, args = [(12, 17), (24, 31), (33, 39)], numOfArgs = 3\<rparr>"
  by (simp add: parse_eval)

lemma strtoul_266: "libc_strtoul ''266'' 10 = 266"
  by (simp add: strtoul_eval)

lemma uint8_of_256: "(ucast (256 :: 32 word) :: 8 word) = 0"
  "(ucast (266 :: 32 word) :: 8 word) = 10"
  by simp_all

lemma erase_256_1:
  "const_val c = 12 \<Longrightarrow>
   cbl_HandleCmdFlashErase (board_env c)
       (parse_line ''flash-erase type=sector sector=256 count=1'')
     = flash_erase_run (board_env c) (sector_settings 0 1)"
  apply (subst flash_erase_sector_branch [where type = 17 and charSect = 31 and sect = 0])
      apply (simp_all add: parse_erase_256_1 lookup_eval board_env_def strtoul_small sect_ge_iff)
  apply (simp add: int_ge_const_iff)
  done

lemma erase_2_266:
  "const_val c = 12 \<Longrightarrow>
   cbl_HandleCmdFlashErase (board_env c)
       (parse_line ''flash-erase type=sector sector=2 count=266'')
     = flash_erase_run (board_env c) (sector_settings 2 10)"
  apply (subst flash_erase_sector_branch [where type = 17 and charSect = 31 and sect = 2])
      apply (simp_all add: parse_erase_2_266 lookup_eval board_env_def strtoul_small strtoul_266
        sect_ge_iff)
  apply (simp add: int_ge_const_iff)
  apply (simp add: sector_settings_def)
  done

lemma erase_args_256_1:
  "arg_value (parse_line ''flash-erase type=sector sector=256 count=1'') ''type'' = Some ''sector''"
  "arg_value (parse_line ''flash-erase type=sector sector=256 count=1'') ''sector'' = Some ''256''"
  "arg_value (parse_line ''flash-erase type=sector sector=256 count=1'') ''count'' = Some ''1''"
  by (simp_all add: arg_value_def parse_erase_256_1 lookup_eval)

lemma erase_args_2_266:
  "arg_value (parse_line ''flash-erase type=sector sector=2 count=266'') ''type'' = Some ''sector''"
  "arg_value (parse_line ''flash-erase type=sector sector=2 count=266'') ''sector'' = Some ''2''"
  "arg_value (parse_line ''flash-erase type=sector sector=2 count=266'') ''count'' = Some ''266''"
  by (simp_all add: arg_value_def parse_erase_2_266 lookup_eval)

text \<open>
  C3. The claim is that every request of type \<open>sector\<close> whose first sector is at least
  \<open>FLASH_SECTOR_TOTAL\<close> returns \<open>CBL_ERR_INV_SECT\<close>, and every one whose last sector
  \<open>first_sector + count - 1\<close> is at least \<open>FLASH_SECTOR_TOTAL\<close> returns
  \<open>CBL_ERR_INV_SECT_COUNT\<close>, before the flash is unlocked. The handler does not do
  that: it converts what \<open>strtoul\<close> returns to \<open>uint8_t\<close> before each check, so the
  checks see the arguments modulo 256. With \<open>FLASH_SECTOR_TOTAL\<close> of value 12, as an
  \<open>unsigned\<close> or as an \<open>int\<close> constant: the request \<open>sector=256 count=1\<close>, whose
  first sector 256 is not below 12, returns OK after unlocking the flash and erasing one
  sector from sector 0; the request \<open>sector=2 count=266\<close>, whose last sector 267 is
  not below 12, returns OK after unlocking the flash and erasing 10 sectors from
  sector 2.
\<close>

theorem flash_erase_range_check_truncated:
  "arg_value (parse_line ''flash-erase type=sector sector=256 count=1'') ''sector'' = Some ''256'' \<and>
   strtoul (board_env (C_uint 12)) ''256'' 10 = 256 \<and>
   const_val (FLASH_SECTOR_TOTAL (board_env (C_uint 12))) \<le> 256 \<and>
   cbl_HandleCmdFlashErase (board_env (C_uint 12))
       (parse_line ''flash-erase type=sector sector=256 count=1'') =
     (CBL_ERR_OK,
      [LED_ON BLUE, FLASH_Unlock,
       FLASHEx_Erase \<lparr>TypeErase = FLASH_TYPEERASE_SECTORS, Banks = FLASH_BANK_1,
                       Sector = Some 0, NbSectors = Some 1,
                       VoltageRange = FLASH_VOLTAGE_RANGE_3\<rparr>,
       LED_OFF BLUE, FLASH_Lock, UART_Tx (CRLF @ ''OK'' @ CRLF)]) \<and>
   cbl_HandleCmdFlashErase (board_env (C_int 12))
       (parse_line ''flash-erase type=sector sector=256 count=1'') =
     cbl_HandleCmdFlashErase (board_env (C_uint 12))
       (parse_line ''flash-erase type=sector sector=256 count=1'') \<and>
   arg_value (parse_line ''flash-erase type=sector sector=2 count=266'') ''sector'' = Some ''2'' \<and>
   arg_value (parse_line ''flash-erase type=sector sector=2 count=266'') ''count'' = Some ''266'' \<and>
   strtoul (board_env (C_uint 12)) ''2'' 10 = 2 \<and>
   strtoul (board_env (C_uint 12)) ''266'' 10 = 266 \<and>
   const_val (FLASH_SECTOR_TOTAL (board_env (C_uint 12))) \<le> 2 + 266 - 1 \<and>
   cbl_HandleCmdFlashErase (board_env (C_uint 12))
       (parse_line ''flash-erase type=sector sector=2 count=266'') =
     (CBL_ERR_OK,
      [LED_ON BLUE, FLASH_Unlock,
       FLASHEx_Erase \<lparr>TypeErase = FLASH_TYPEERASE_SECTORS, Banks = FLASH_BANK_1,
                       Sector = Some 2, NbSectors = Some 10,
                       VoltageRange = FLASH_VOLTAGE_RANGE_3\<rparr>,
       LED_OFF BLUE, FLASH_Lock, UART_Tx (CRLF @ ''OK'' @ CRLF)]) \<and>
   cbl_HandleCmdFlashErase (board_env (C_int 12))
       (parse_line ''flash-erase type=sector sector=2 count=266'') =
     cbl_HandleCmdFlashErase (board_env (C_uint 12))
       (parse_line ''flash-erase type=sector sector=2 count=266'')"
proof -
  have tot: "const_val (FLASH_SECTOR_TOTAL (board_env (C_uint 12))) = 12"
    by (simp add: board_env_def)
  have st: "strtoul (board_env (C_uint 12)) = libc_strtoul"
    by (simp add: board_env_def)
  have ok: "CBL_TXT_SUCCESS (board_env c) = CRLF @ ''OK'' @ CRLF" for c
    by (simp add: board_env_def)
  have a: "cbl_HandleCmdFlashErase (board_env c)
       (parse_line ''flash-erase type=sector sector=256 count=1'') =
     (CBL_ERR_OK,
      [LED_ON BLUE, FLASH_Unlock,
       FLASHEx_Erase \<lparr>TypeErase = FLASH_TYPEERASE_SECTORS, Banks = FLASH_BANK_1,
                       Sector = Some 0, NbSectors = Some 1,
                       VoltageRange = FLASH_VOLTAGE_RANGE_3\<rparr>,
       LED_OFF BLUE, FLASH_Lock, UART_Tx (CRLF @ ''OK'' @ CRLF)])" if "const_val c = 12" for c
    by (simp add: erase_256_1 [OF that] flash_erase_run_board ok sector_settings_def)
  have b: "cbl_HandleCmdFlashErase (board_env c)
       (parse_line ''flash-erase type=sector sector=2 count=266'') =
     (CBL_ERR_OK,
      [LED_ON BLUE, FLASH_Unlock,
       FLASHEx_Erase \<lparr>TypeErase = FLASH_TYPEERASE_SECTORS, Banks = FLASH_BANK_1,
                       Sector = Some 2, NbSectors = Some 10,
                       VoltageRange = FLASH_VOLTAGE_RANGE_3\<rparr>,
       LED_OFF BLUE, FLASH_Lock, UART_Tx (CRLF @ ''OK'' @ CRLF)])" if "const_val c = 12" for c
    by (simp add: erase_2_266 [OF that] flash_erase_run_board ok sector_settings_def)
  have ci: "const_val (C_int 12) = 12" and cu: "const_val (C_uint 12) = 12"
    by simp_all
  show ?thesis
    by (simp add: erase_args_256_1 erase_args_2_266 st strtoul_small strtoul_266 tot
        a [OF ci] a [OF cu] b [OF ci] b [OF cu])
qed


section \<open>The error state\<close>

lemma switch_recognised:
  "e \<in> set sys_state_error_cases \<Longrightarrow> fst (sys_state_error_switch e) = CBL_ERR_OK"
  by (cases e) (simp_all add: sys_state_error_cases_def)

lemma switch_default:
  "e \<notin> set sys_state_error_cases \<Longrightarrow> sys_state_error_switch e = (e, []) \<and> e \<noteq> CBL_ERR_OK"
  by (cases e) (simp_all add: sys_state_error_cases_def)

lemma sys_state_error_fst: "fst (sys_state_error e w) = fst (sys_state_error_switch e)"
  by (simp add: sys_state_error_def split: prod.splits)

lemma shell_pass_error_state:
  "state s = STATE_ERR \<Longrightarrow>
   shell_pass env s =
     Continue (s\<lparr>state := (if fst (sys_state_error (eCode s) (lnk s)) \<noteq> CBL_ERR_OK
                            then STATE_EXIT else STATE_OPER),
                 nextState := (if fst (sys_state_error (eCode s) (lnk s)) \<noteq> CBL_ERR_OK
                            then STATE_EXIT else STATE_OPER),
                 eCode := fst (sys_state_error (eCode s) (lnk s)),
                 lnk := snd (sys_state_error (eCode s) (lnk s))\<rparr>)"
  by (simp add: shell_pass_def Let_def split: prod.splits)

text \<open>
  C4. Every error code for which \<open>sys_state_error\<close> has a \<open>case\<close> label is turned
  into \<open>CBL_ERR_OK\<close>, and a pass of the shell loop in the error state then goes to
  the operational state; for every other code \<open>sys_state_error\<close> returns the code
  unchanged (it is not OK) and the pass goes to the exit state. So the error state
  leaves for the exit state exactly on the codes without a label. For
  \<open>CBL_ERR_JUMP_INV_ADDR\<close>, which has a label, the text sent to the host begins
  with CR LF \<open>ERROR: Invalid address\<close> and the code becomes OK.
\<close>

theorem error_state_recovers:
  "(e \<in> set sys_state_error_cases \<longrightarrow>
      fst (sys_state_error e w) = CBL_ERR_OK \<and>
      (\<forall>s. state s = STATE_ERR \<longrightarrow> eCode s = e \<longrightarrow>
         (\<exists>s1. shell_pass env s = Continue s1 \<and> state s1 = STATE_OPER \<and>
               eCode s1 = CBL_ERR_OK))) \<and>
   (e \<notin> set sys_state_error_cases \<longrightarrow>
      fst (sys_state_error e w) = e \<and> e \<noteq> CBL_ERR_OK \<and>
      (\<forall>s. state s = STATE_ERR \<longrightarrow> eCode s = e \<longrightarrow>
         (\<exists>s1. shell_pass env s = Continue s1 \<and> state s1 = STATE_EXIT \<and> eCode s1 = e))) \<and>
   (\<forall>s. state s = STATE_ERR \<longrightarrow>
      (\<exists>s1. shell_pass env s = Continue s1 \<and>
            (state s1 = STATE_EXIT \<longleftrightarrow> eCode s \<notin> set sys_state_error_cases) \<and>
            (state s1 = STATE_OPER \<longleftrightarrow> eCode s \<in> set sys_state_error_cases))) \<and>
   CBL_ERR_JUMP_INV_ADDR \<in> set sys_state_error_cases \<and>
   sys_state_error CBL_ERR_JUMP_INV_ADDR w =
     (CBL_ERR_OK,
      emit [LED_OFF LED_MEMORY, LED_OFF LED_READY, LED_OFF LED_BUSY,
            UART_Tx (CRLF @ ''ERROR: Invalid address'' @ CRLF @
                     ''Jumpable regions: FLASH, SRAM1, SRAM2, CCMRAM, BKPSRAM, SYSMEM and EXTMEM (if connected)'' @
                     CRLF)] w)"
proof (intro conjI impI allI)
  assume r: "e \<in> set sys_state_error_cases"
  show "fst (sys_state_error e w) = CBL_ERR_OK"
    using r by (simp add: sys_state_error_fst switch_recognised)
  fix s :: shell assume "state s = STATE_ERR" "eCode s = e"
  then show "\<exists>s1. shell_pass env s = Continue s1 \<and> state s1 = STATE_OPER \<and> eCode s1 = CBL_ERR_OK"
    using r by (simp add: shell_pass_error_state sys_state_error_fst switch_recognised)
next
  assume d: "e \<notin> set sys_state_error_cases"
  show "fst (sys_state_error e w) = e"
    using switch_default [OF d] by (simp add: sys_state_error_fst)
  show "e \<noteq> CBL_ERR_OK"
    using switch_default [OF d] by simp
  fix s :: shell assume "state s = STATE_ERR" "eCode s = e"
  then show "\<exists>s1. shell_pass env s = Continue s1 \<and> state s1 = STATE_EXIT \<and> eCode s1 = e"
    using switch_default [OF d] by (simp add: shell_pass_error_state sys_state_error_fst)
next
  fix s :: shell assume st: "state s = STATE_ERR"
  show "\<exists>s1. shell_pass env s = Continue s1 \<and>
            (state s1 = STATE_EXIT \<longleftrightarrow> eCode s \<notin> set sys_state_error_cases) \<and>
            (state s1 = STATE_OPER \<longleftrightarrow> eCode s \<in> set sys_state_error_cases)"
  proof (cases "eCode s \<in> set sys_state_error_cases")
    case True
    then show ?thesis
      using st by (simp add: shell_pass_error_state sys_state_error_fst switch_recognised)
  next
    case False
    then show ?thesis
      using st switch_default [OF False]
      by (simp add: shell_pass_error_state sys_state_error_fst)
  qed
next
  show "CBL_ERR_JUMP_INV_ADDR \<in> set sys_state_error_cases"
    by (simp add: sys_state_error_cases_def)
  show "sys_state_error CBL_ERR_JUMP_INV_ADDR w =
     (CBL_ERR_OK,
      emit [LED_OFF LED_MEMORY, LED_OFF LED_READY, LED_OFF LED_BUSY,
            UART_Tx (CRLF @ ''ERROR: Invalid address'' @ CRLF @
                     ''Jumpable regions: FLASH, SRAM1, SRAM2, CCMRAM, BKPSRAM, SYSMEM and EXTMEM (if connected)'' @
                     CRLF)] w)"
    by (simp add: sys_state_error_def ERROR_msg_def)
qed

theorem error_state_recovers_witness:
  "CBL_ERR_CKSUM_WRONG \<in> set sys_state_error_cases \<and>
   fst (sys_state_error CBL_ERR_CKSUM_WRONG (idle_link [])) = CBL_ERR_OK \<and>
   CBL_ERR_CMDCD \<notin> set sys_state_error_cases \<and>
   fst (sys_state_error CBL_ERR_CMDCD (idle_link [])) = CBL_ERR_CMDCD \<and>
   state (shell_in STATE_ERR CBL_ERR_JUMP_INV_ADDR (idle_link [])) = STATE_ERR \<and>
   (\<exists>s1. shell_pass quiet_shell_env (shell_in STATE_ERR CBL_ERR_JUMP_INV_ADDR (idle_link []))
            = Continue s1 \<and>
         state s1 = STATE_OPER \<and> eCode s1 = CBL_ERR_OK) \<and>
   (\<exists>s1. shell_pass quiet_shell_env (shell_in STATE_ERR CBL_ERR_CMDCD (idle_link []))
            = Continue s1 \<and>
         state s1 = STATE_EXIT \<and> eCode s1 = CBL_ERR_CMDCD)"
proof -
  have known: "CBL_ERR_CKSUM_WRONG \<in> set sys_state_error_cases"
    "CBL_ERR_JUMP_INV_ADDR \<in> set sys_state_error_cases"
    by (simp_all add: sys_state_error_cases_def)
  have unknown: "CBL_ERR_CMDCD \<notin> set sys_state_error_cases"
    by (simp add: sys_state_error_cases_def)
  have st: "state (shell_in STATE_ERR e w) = STATE_ERR" "eCode (shell_in STATE_ERR e w) = e"
    for e w
    by (simp_all add: shell_in_def)
  note recognised = error_state_recovers [THEN conjunct1, rule_format]
  note other = error_state_recovers [THEN conjunct2, THEN conjunct1, rule_format]
  have 1: "fst (sys_state_error CBL_ERR_CKSUM_WRONG (idle_link [])) = CBL_ERR_OK"
    by (rule recognised [OF known(1), THEN conjunct1])
  have 2: "fst (sys_state_error CBL_ERR_CMDCD (idle_link [])) = CBL_ERR_CMDCD"
    by (rule other [OF unknown, THEN conjunct1])
  have 3: "\<exists>s1. shell_pass quiet_shell_env (shell_in STATE_ERR CBL_ERR_JUMP_INV_ADDR (idle_link []))
            = Continue s1 \<and> state s1 = STATE_OPER \<and> eCode s1 = CBL_ERR_OK"
    by (rule recognised [OF known(2), THEN conjunct2, rule_format, OF st])
  have 4: "\<exists>s1. shell_pass quiet_shell_env (shell_in STATE_ERR CBL_ERR_CMDCD (idle_link []))
            = Continue s1 \<and> state s1 = STATE_EXIT \<and> eCode s1 = CBL_ERR_CMDCD"
    by (rule other [OF unknown, THEN conjunct2, THEN conjunct2, rule_format, OF st])
  from known(1) 1 unknown 2 st(1) 3 4 show ?thesis
    by (intro conjI)
qed


section \<open>Reading a command line\<close>

lemma CR_neq_LF: "CR \<noteq> LF"
  by (simp add: CR_def LF_def)

lemma wait_loop_overflow:
  assumes recv: "\<forall>i < n. hal_recv_from_host_start env i = CBL_ERR_OK"
  shows "iii \<le> n \<Longrightarrow> length buf = n \<Longrightarrow> n - iii \<le> length input \<Longrightarrow>
         \<not> (isLastCharCR \<and> iii < n \<and> hd input = LF) \<Longrightarrow>
         \<forall>i. Suc i < n - iii \<longrightarrow> \<not> (input ! i = CR \<and> input ! Suc i = LF) \<Longrightarrow>
         wait_for_cmd_loop env n buf iii isLastCharCR input =
           Some (CBL_ERR_READ_OF, take iii buf @ take (n - iii) input, drop (n - iii) input)"
proof (induction k \<equiv> "n - iii" arbitrary: iii buf isLastCharCR input)
  case 0
  then have "iii = n" by simp
  then show ?case
    using 0 by (subst wait_for_cmd_loop.simps) (simp del: wait_for_cmd_loop.simps)
next
  case (Suc k)
  then have lt: "iii < n" by simp
  with Suc.prems obtain c input1 where inp: "input = c # input1"
    by (cases input) auto
  have notlf: "\<not> (isLastCharCR \<and> c = LF)"
    using Suc.prems(4) lt inp by simp
  have k: "k = n - (iii + 1)"
    using Suc.hyps(2) by simp
  have next_ok: "\<not> (c = CR \<and> iii + 1 < n \<and> hd input1 = LF)"
  proof
    assume a: "c = CR \<and> iii + 1 < n \<and> hd input1 = LF"
    then have "input1 \<noteq> []"
      using Suc.prems(3) inp by (cases input1) auto
    then have "input ! Suc 0 = LF"
      using a inp by (cases input1) auto
    moreover have "input ! 0 = CR"
      using a inp by simp
    moreover have "Suc 0 < n - iii"
      using a by arith
    ultimately show False
      using Suc.prems(5) by blast
  qed
  have rest: "\<forall>i. Suc i < n - (iii + 1) \<longrightarrow> \<not> (input1 ! i = CR \<and> input1 ! Suc i = LF)"
  proof (intro allI impI)
    fix i assume "Suc i < n - (iii + 1)"
    then have "Suc (Suc i) < n - iii" by simp
    then have "\<not> (input ! Suc i = CR \<and> input ! Suc (Suc i) = LF)"
      using Suc.prems(5) by blast
    then show "\<not> (input1 ! i = CR \<and> input1 ! Suc i = LF)"
      by (simp add: inp)
  qed
  have ih: "wait_for_cmd_loop env n (buf[iii := c]) (iii + 1) (c = CR) input1 =
      Some (CBL_ERR_READ_OF, take (iii + 1) (buf[iii := c]) @ take (n - (iii + 1)) input1,
            drop (n - (iii + 1)) input1)"
    using Suc.prems(2,3) lt inp next_ok rest
    by (intro Suc.hyps(1) [OF k]) auto
  have tk: "take (iii + 1) (buf[iii := c]) = take iii buf @ [c]"
    using lt Suc.prems(2) by (simp add: take_Suc_conv_app_nth)
  have unfold: "wait_for_cmd_loop env n buf iii isLastCharCR input =
      wait_for_cmd_loop env n (buf[iii := c]) (iii + 1) (c = CR) input1"
    using lt recv notlf inp
    by (subst wait_for_cmd_loop.simps) (auto simp del: wait_for_cmd_loop.simps simp add: Let_def)
  have split: "take (n - iii) input = c # take (n - (iii + 1)) input1"
    "drop (n - iii) input = drop (n - (iii + 1)) input1"
    using lt inp by (simp_all add: take_Cons' drop_Cons')
  show ?case
    by (simp only: unfold ih tk split) simp
qed

lemma wait_loop_line:
  assumes recv: "\<forall>i < n. hal_recv_from_host_start env i = CBL_ERR_OK"
  shows "length buf = n \<Longrightarrow> iii + length l + 2 \<le> n \<Longrightarrow>
         \<not> (isLastCharCR \<and> hd (l @ [CR]) = LF) \<Longrightarrow>
         \<forall>i. Suc i < length l + 1 \<longrightarrow> \<not> ((l @ [CR]) ! i = CR \<and> (l @ [CR]) ! Suc i = LF) \<Longrightarrow>
         wait_for_cmd_loop env n buf iii isLastCharCR (l @ [CR, LF] @ rest) =
           Some (CBL_ERR_OK, take iii buf @ l @ [NUL, LF] @ drop (iii + length l + 2) buf, rest)"
proof (induction l arbitrary: iii buf isLastCharCR)
  case Nil
  have lt: "iii < n" "iii + 1 < n"
    using Nil.prems(2) by simp_all
  have step1: "wait_for_cmd_loop env n buf iii isLastCharCR ([] @ [CR, LF] @ rest) =
      wait_for_cmd_loop env n (buf[iii := CR]) (iii + 1) True (LF # rest)"
    using lt recv
    by (subst wait_for_cmd_loop.simps)
      (simp del: wait_for_cmd_loop.simps add: Let_def CR_neq_LF)
  have step2: "wait_for_cmd_loop env n (buf[iii := CR]) (iii + 1) True (LF # rest) =
      Some (CBL_ERR_OK, buf[iii := CR, iii + 1 := LF, iii := NUL], rest)"
    using lt recv
    by (subst wait_for_cmd_loop.simps) (simp del: wait_for_cmd_loop.simps add: Let_def)
  have shape: "buf[iii := CR, iii + 1 := LF, iii := NUL] =
      take iii buf @ [NUL, LF] @ drop (iii + 2) buf"
  proof (intro nth_equalityI)
    show "length (buf[iii := CR, iii + 1 := LF, iii := NUL]) =
        length (take iii buf @ [NUL, LF] @ drop (iii + 2) buf)"
      using lt Nil.prems(1) by simp
  next
    fix i assume "i < length (buf[iii := CR, iii + 1 := LF, iii := NUL])"
    then have i: "i < n"
      using Nil.prems(1) by simp
    consider "i < iii" | "i = iii" | "i = iii + 1" | "iii + 2 \<le> i"
      by arith
    then show "buf[iii := CR, iii + 1 := LF, iii := NUL] ! i =
        (take iii buf @ [NUL, LF] @ drop (iii + 2) buf) ! i"
    proof cases
      case 1
      then show ?thesis
        using lt Nil.prems(1) by (simp add: nth_append)
    next
      case 2
      then show ?thesis
        using lt Nil.prems(1) by (simp add: nth_append)
    next
      case 3
      then show ?thesis
        using lt Nil.prems(1) by (simp add: nth_append)
    next
      case 4
      then obtain j where j: "i = iii + 2 + j"
        using le_Suc_ex by blast
      show ?thesis
        using lt Nil.prems(1) i by (simp add: j nth_append)
    qed
  qed
  show ?case
    by (simp only: step1 step2 shape) simp
next
  case (Cons c l)
  have lt: "iii < n"
    using Cons.prems(2) by simp
  have notlf: "\<not> (isLastCharCR \<and> c = LF)"
    using Cons.prems(3) by simp
  have unfold: "wait_for_cmd_loop env n buf iii isLastCharCR ((c # l) @ [CR, LF] @ rest) =
      wait_for_cmd_loop env n (buf[iii := c]) (iii + 1) (c = CR) (l @ [CR, LF] @ rest)"
    using lt recv notlf
    by (subst wait_for_cmd_loop.simps) (auto simp del: wait_for_cmd_loop.simps simp add: Let_def)
  have next_ok: "\<not> (c = CR \<and> hd (l @ [CR]) = LF)"
    using Cons.prems(4) [rule_format, of 0] by (cases l) (auto simp: CR_def LF_def)
  have rest_ok: "\<forall>i. Suc i < length l + 1 \<longrightarrow> \<not> ((l @ [CR]) ! i = CR \<and> (l @ [CR]) ! Suc i = LF)"
  proof (intro allI impI)
    fix i assume "Suc i < length l + 1"
    then have "Suc (Suc i) < length (c # l) + 1" by simp
    from Cons.prems(4) [rule_format, OF this]
    show "\<not> ((l @ [CR]) ! i = CR \<and> (l @ [CR]) ! Suc i = LF)" by simp
  qed
  have ih: "wait_for_cmd_loop env n (buf[iii := c]) (iii + 1) (c = CR) (l @ [CR, LF] @ rest) =
      Some (CBL_ERR_OK,
            take (iii + 1) (buf[iii := c]) @ l @ [NUL, LF] @
              drop (iii + 1 + length l + 2) (buf[iii := c]), rest)"
    using Cons.prems(1,2) next_ok rest_ok
    by (intro Cons.IH) auto
  have tk: "take (iii + 1) (buf[iii := c]) = take iii buf @ [c]"
    using lt Cons.prems(1) by (simp add: take_Suc_conv_app_nth)
  have dr: "drop (iii + 1 + length l + 2) (buf[iii := c]) = drop (iii + length (c # l) + 2) buf"
    by simp
  show ?case
    by (simp only: unfold ih tk dr) simp
qed

declare wait_for_cmd_loop.simps [simp del]

text \<open>
  When the host stops before the buffer is full and has sent no LF, the read never
  returns.
\<close>

lemma wait_loop_blocks:
  assumes recv: "\<forall>i < n. hal_recv_from_host_start env i = CBL_ERR_OK"
  shows "length input < n - iii \<Longrightarrow> LF \<notin> set input \<Longrightarrow>
         wait_for_cmd_loop env n buf iii isLastCharCR input = None"
proof (induction input arbitrary: iii buf isLastCharCR)
  case Nil
  then show ?case
    using recv by (subst wait_for_cmd_loop.simps) simp
next
  case (Cons c input)
  have "wait_for_cmd_loop env n buf iii isLastCharCR (c # input) =
      wait_for_cmd_loop env n (buf[iii := c]) (iii + 1) (c = CR) input"
    using Cons.prems recv by (subst wait_for_cmd_loop.simps) (auto simp: Let_def)
  also have "\<dots> = None"
    using Cons.prems by (intro Cons.IH) auto
  finally show ?case .
qed

lemma wait_for_cmd_overflow:
  assumes "hal_send_to_host env (CRLF @ ''> '') = CBL_ERR_OK"
    and recv: "\<forall>i < n. hal_recv_from_host_start env i = CBL_ERR_OK"
    and "length buf = n"
    and "n \<le> length (rx w)"
    and "\<forall>i. Suc i < n \<longrightarrow> \<not> (rx w ! i = CR \<and> rx w ! Suc i = LF)"
  shows "wait_for_cmd env buf n w =
     Some (CBL_ERR_READ_OF, take n (rx w),
           (emit [UART_Tx (CRLF @ ''> '')] w)\<lparr>rx := drop n (rx w)\<rparr>)"
proof -
  have "wait_for_cmd_loop env n buf 0 False (rx w) =
      Some (CBL_ERR_READ_OF, take 0 buf @ take (n - 0) (rx w), drop (n - 0) (rx w))"
    using assms(3-5) by (intro wait_loop_overflow [OF recv]) auto
  then show ?thesis
    using assms(1) by (simp add: wait_for_cmd_def emit_def Let_def)
qed

lemma wait_for_cmd_line:
  assumes "hal_send_to_host env (CRLF @ ''> '') = CBL_ERR_OK"
    and recv: "\<forall>i < n. hal_recv_from_host_start env i = CBL_ERR_OK"
    and "rx w = l @ [CR, LF] @ rest"
    and "length l + 2 \<le> n"
    and "\<forall>i. Suc i < length l + 1 \<longrightarrow> \<not> ((l @ [CR]) ! i = CR \<and> (l @ [CR]) ! Suc i = LF)"
  shows "wait_for_cmd env (replicate n NUL) n w =
     Some (CBL_ERR_OK, l @ [NUL, LF] @ replicate (n - (length l + 2)) NUL,
           (emit [UART_Tx (CRLF @ ''> '')] w)\<lparr>rx := rest\<rparr>)"
proof -
  have "wait_for_cmd_loop env n (replicate n NUL) 0 False (l @ [CR, LF] @ rest) =
      Some (CBL_ERR_OK,
            take 0 (replicate n NUL) @ l @ [NUL, LF] @ drop (0 + length l + 2) (replicate n NUL),
            rest)"
    using assms(4,5) by (intro wait_loop_line [OF recv]) auto
  then show ?thesis
    using assms(1,3) by (simp add: wait_for_cmd_def emit_def Let_def)
qed

lemma truncate_sels:
  "hal_send_to_host (hal_env.truncate env) = hal_send_to_host env"
  "hal_recv_from_host_start (hal_env.truncate env) = hal_recv_from_host_start env"
  by (simp_all add: hal_env.truncate_def)

lemma c_str_line:
  "NUL \<notin> set l \<Longrightarrow> c_str (l @ [NUL, LF] @ zs) 0 = l"
  by (simp add: c_str_def takeWhile_append)

text \<open>
  C5. Let the prompt be sent and every reception be started without error, and let the
  host send at least \<open>CMD_BUF_SZ\<close> bytes among the first \<open>CMD_BUF_SZ\<close> of which no
  CR is directly followed by LF. Then \<open>wait_for_cmd\<close> fills the whole buffer with
  those bytes, consumes exactly them and returns \<open>CBL_ERR_READ_OF\<close>, and so does
  \<open>sys_state_operation\<close>, without calling the command processor. The pass of the
  shell loop in the operational state goes to the error state with that code; the pass
  in the error state sends \<open>ERROR: Command too long\<close>, turns the code into OK and
  goes back to the operational state without asking for the exit. The third pass, the
  shell's own next \<open>sys_state_operation\<close>, reads from the first byte not yet consumed
  into a buffer of zeros: when a line \<open>l\<close> with its CR LF follows, the buffer the
  shell hands to the command processor is \<open>l\<close>, NUL, LF and zeros, with nothing of
  the overlong line in it, its string is \<open>l\<close> (when \<open>l\<close> has no NUL), and the
  result of the pass is the one of the command processor on that buffer.
\<close>

theorem read_overflow_recovered:
  assumes prompt_ok: "hal_send_to_host env (CRLF @ ''> '') = CBL_ERR_OK"
    and recv: "\<forall>i < CMD_BUF_SZ. hal_recv_from_host_start env i = CBL_ERR_OK"
    and long: "CMD_BUF_SZ \<le> length (rx (lnk s))"
    and nocrlf: "\<forall>i. Suc i < CMD_BUF_SZ \<longrightarrow> \<not> (rx (lnk s) ! i = CR \<and> rx (lnk s) ! Suc i = LF)"
    and oper: "state s = STATE_OPER"
  shows
    "wait_for_cmd (hal_env.truncate env) (replicate CMD_BUF_SZ NUL) CMD_BUF_SZ (lnk s) =
       Some (CBL_ERR_READ_OF, take CMD_BUF_SZ (rx (lnk s)),
             (emit [UART_Tx (CRLF @ ''> '')] (lnk s))\<lparr>rx := drop CMD_BUF_SZ (rx (lnk s))\<rparr>) \<and>
     sys_state_operation env (lnk s) =
       Some (CBL_ERR_READ_OF,
             (emit [LED_ON LED_READY, UART_Tx (CRLF @ ''> '')] (lnk s))
               \<lparr>rx := drop CMD_BUF_SZ (rx (lnk s))\<rparr>) \<and>
     (\<exists>s1 s2.
         shell_pass env s = Continue s1 \<and> state s1 = STATE_ERR \<and> eCode s1 = CBL_ERR_READ_OF \<and>
         shell_pass env s1 = Continue s2 \<and> state s2 = STATE_OPER \<and> eCode s2 = CBL_ERR_OK \<and>
         nextState s2 = STATE_OPER \<and>
         isExitNeeded s2 = isExitNeeded s \<and>
         rx (lnk s2) = drop CMD_BUF_SZ (rx (lnk s)) \<and>
         gIsExitReq (lnk s2) = gIsExitReq (lnk s) \<and>
         sent (lnk s2) = sent (lnk s) @
           [LED_ON LED_READY, UART_Tx (CRLF @ ''> ''),
            LED_OFF LED_MEMORY, LED_OFF LED_READY, LED_OFF LED_BUSY,
            UART_Tx (CRLF @ ''ERROR: Command too long'' @ CRLF)] \<and>
         (\<forall>l rest.
            drop CMD_BUF_SZ (rx (lnk s)) = l @ [CR, LF] @ rest \<longrightarrow>
            length l + 2 \<le> CMD_BUF_SZ \<longrightarrow>
            (\<forall>i. Suc i < length l + 1 \<longrightarrow>
                 \<not> ((l @ [CR]) ! i = CR \<and> (l @ [CR]) ! Suc i = LF)) \<longrightarrow>
            wait_for_cmd (hal_env.truncate env) (replicate CMD_BUF_SZ NUL) CMD_BUF_SZ
                (emit [LED_ON LED_READY] (lnk s2)) =
              Some (CBL_ERR_OK, l @ [NUL, LF] @ replicate (CMD_BUF_SZ - (length l + 2)) NUL,
                    (emit [LED_ON LED_READY, UART_Tx (CRLF @ ''> '')] (lnk s2))\<lparr>rx := rest\<rparr>) \<and>
            sys_state_operation env (lnk s2) =
              (case CBL_process_cmd env
                      (l @ [NUL, LF] @ replicate (CMD_BUF_SZ - (length l + 2)) NUL)
                      (strlen (l @ [NUL, LF] @ replicate (CMD_BUF_SZ - (length l + 2)) NUL) 0)
                      ((emit [LED_ON LED_READY, UART_Tx (CRLF @ ''> ''), LED_OFF LED_READY,
                              LED_ON LED_BUSY] (lnk s2))\<lparr>rx := rest\<rparr>) of
                 None \<Rightarrow> None
               | Some (e2, w2) \<Rightarrow> Some (e2, emit [LED_OFF LED_BUSY] w2)) \<and>
            shell_pass env s2 =
              (case CBL_process_cmd env
                      (l @ [NUL, LF] @ replicate (CMD_BUF_SZ - (length l + 2)) NUL)
                      (strlen (l @ [NUL, LF] @ replicate (CMD_BUF_SZ - (length l + 2)) NUL) 0)
                      ((emit [LED_ON LED_READY, UART_Tx (CRLF @ ''> ''), LED_OFF LED_READY,
                              LED_ON LED_BUSY] (lnk s2))\<lparr>rx := rest\<rparr>) of
                 None \<Rightarrow> Blocked
               | Some (e2, w2) \<Rightarrow>
                   Continue (s2\<lparr>state := (if e2 \<noteq> CBL_ERR_OK then STATE_ERR
                                          else if gIsExitReq w2 then STATE_EXIT
                                          else STATE_OPER),
                               nextState := (if e2 \<noteq> CBL_ERR_OK then STATE_ERR
                                          else if gIsExitReq w2 then STATE_EXIT
                                          else STATE_OPER),
                               eCode := e2, lnk := emit [LED_OFF LED_BUSY] w2\<rparr>)) \<and>
            (NUL \<notin> set l \<longrightarrow>
               c_str (l @ [NUL, LF] @ replicate (CMD_BUF_SZ - (length l + 2)) NUL) 0 = l)))"
proof -
  let ?e = "hal_env.truncate env"
  let ?w = "emit [LED_ON LED_READY] (lnk s)"
  have rxw: "rx ?w = rx (lnk s)"
    by (simp add: emit_def)
  have pr: "hal_send_to_host ?e (CRLF @ ''> '') = CBL_ERR_OK"
    and rc: "\<forall>i < CMD_BUF_SZ. hal_recv_from_host_start ?e i = CBL_ERR_OK"
    using prompt_ok recv by (simp_all add: truncate_sels)
  have first: "wait_for_cmd ?e (replicate CMD_BUF_SZ NUL) CMD_BUF_SZ (lnk s) =
       Some (CBL_ERR_READ_OF, take CMD_BUF_SZ (rx (lnk s)),
             (emit [UART_Tx (CRLF @ ''> '')] (lnk s))\<lparr>rx := drop CMD_BUF_SZ (rx (lnk s))\<rparr>)"
    using long nocrlf by (intro wait_for_cmd_overflow [OF pr rc]) auto
  have w1: "wait_for_cmd ?e (replicate CMD_BUF_SZ NUL) CMD_BUF_SZ ?w =
       Some (CBL_ERR_READ_OF, take CMD_BUF_SZ (rx ?w),
             (emit [UART_Tx (CRLF @ ''> '')] ?w)\<lparr>rx := drop CMD_BUF_SZ (rx ?w)\<rparr>)"
    using long nocrlf by (intro wait_for_cmd_overflow [OF pr rc]) (auto simp: rxw)
  define l1 where "l1 = (emit [UART_Tx (CRLF @ ''> '')] ?w)\<lparr>rx := drop CMD_BUF_SZ (rx (lnk s))\<rparr>"
  have op: "sys_state_operation env (lnk s) = Some (CBL_ERR_READ_OF, l1)"
    by (simp add: sys_state_operation_def w1 rxw l1_def)
  have l1_eq: "l1 = (emit [LED_ON LED_READY, UART_Tx (CRLF @ ''> '')] (lnk s))
               \<lparr>rx := drop CMD_BUF_SZ (rx (lnk s))\<rparr>"
    by (simp add: l1_def emit_def)
  define s1 where "s1 = s\<lparr>state := STATE_ERR, nextState := STATE_ERR,
      eCode := CBL_ERR_READ_OF, lnk := l1\<rparr>"
  have p1: "shell_pass env s = Continue s1"
    using oper by (simp add: shell_pass_def op s1_def)
  define l2 where "l2 = emit [LED_OFF LED_MEMORY, LED_OFF LED_READY, LED_OFF LED_BUSY,
       UART_Tx (CRLF @ ''ERROR: Command too long'' @ CRLF)] l1"
  have se: "sys_state_error CBL_ERR_READ_OF l1 = (CBL_ERR_OK, l2)"
    by (simp add: sys_state_error_def ERROR_msg_def l2_def)
  define s2 where "s2 = s1\<lparr>state := STATE_OPER, nextState := STATE_OPER,
      eCode := CBL_ERR_OK, lnk := l2\<rparr>"
  have p2: "shell_pass env s1 = Continue s2"
    by (simp add: shell_pass_def s1_def se s2_def)
  have rx2: "rx (lnk s2) = drop CMD_BUF_SZ (rx (lnk s))"
    by (simp add: s2_def l2_def l1_def emit_def)
  have sent2: "sent (lnk s2) = sent (lnk s) @
           [LED_ON LED_READY, UART_Tx (CRLF @ ''> ''),
            LED_OFF LED_MEMORY, LED_OFF LED_READY, LED_OFF LED_BUSY,
            UART_Tx (CRLF @ ''ERROR: Command too long'' @ CRLF)]"
    by (simp add: s2_def l2_def l1_def emit_def)
  have st2: "state s2 = STATE_OPER" "nextState s2 = STATE_OPER"
    by (simp_all add: s2_def)
  have ex2: "gIsExitReq (lnk s2) = gIsExitReq (lnk s)"
    by (simp add: s2_def l2_def l1_def emit_def)
  {
    fix l rest
    let ?B = "l @ [NUL, LF] @ replicate (CMD_BUF_SZ - (length l + 2)) NUL"
    let ?W = "(emit [LED_ON LED_READY, UART_Tx (CRLF @ ''> ''), LED_OFF LED_READY,
                     LED_ON LED_BUSY] (lnk s2))\<lparr>rx := rest\<rparr>"
    assume a: "drop CMD_BUF_SZ (rx (lnk s)) = l @ [CR, LF] @ rest" "length l + 2 \<le> CMD_BUF_SZ"
      "\<forall>i. Suc i < length l + 1 \<longrightarrow> \<not> ((l @ [CR]) ! i = CR \<and> (l @ [CR]) ! Suc i = LF)"
    have "rx (emit [LED_ON LED_READY] (lnk s2)) = l @ [CR, LF] @ rest"
      using a(1) rx2 by (simp add: emit_def)
    from wait_for_cmd_line [OF pr rc this a(2,3)]
    have fresh: "wait_for_cmd ?e (replicate CMD_BUF_SZ NUL) CMD_BUF_SZ
                (emit [LED_ON LED_READY] (lnk s2)) =
              Some (CBL_ERR_OK, ?B,
                    (emit [LED_ON LED_READY, UART_Tx (CRLF @ ''> '')] (lnk s2))\<lparr>rx := rest\<rparr>)"
      by (simp add: emit_def)
    have wl: "emit [LED_OFF LED_READY, LED_ON LED_BUSY]
        ((emit [LED_ON LED_READY, UART_Tx (CRLF @ ''> '')] (lnk s2))\<lparr>rx := rest\<rparr>) = ?W"
      by (simp add: emit_def)
    have op3: "sys_state_operation env (lnk s2) =
        (case CBL_process_cmd env ?B (strlen ?B 0) ?W of
           None \<Rightarrow> None
         | Some (e2, w2) \<Rightarrow> Some (e2, emit [LED_OFF LED_BUSY] w2))"
      unfolding sys_state_operation_def Let_def fresh
      by (simp only: wl option.case prod.case if_False refl simp_thms)
    have p3: "shell_pass env s2 =
        (case CBL_process_cmd env ?B (strlen ?B 0) ?W of
           None \<Rightarrow> Blocked
         | Some (e2, w2) \<Rightarrow>
             Continue (s2\<lparr>state := (if e2 \<noteq> CBL_ERR_OK then STATE_ERR
                                    else if gIsExitReq w2 then STATE_EXIT
                                    else STATE_OPER),
                         nextState := (if e2 \<noteq> CBL_ERR_OK then STATE_ERR
                                    else if gIsExitReq w2 then STATE_EXIT
                                    else STATE_OPER),
                         eCode := e2, lnk := emit [LED_OFF LED_BUSY] w2\<rparr>))"
      by (simp add: shell_pass_def st2 op3 emit_def Let_def split: option.splits)
    have cs: "NUL \<notin> set l \<longrightarrow> c_str ?B 0 = l"
      by (rule impI) (rule c_str_line)
    note fresh op3 p3 cs
  }
  note third = this
  have "state s1 = STATE_ERR" "eCode s1 = CBL_ERR_READ_OF"
    "eCode s2 = CBL_ERR_OK" "isExitNeeded s2 = isExitNeeded s"
    by (simp_all add: s1_def s2_def)
  with first op [unfolded l1_eq] p1 p2 rx2 ex2 sent2 st2 third show ?thesis
    by blast
qed

lemma long_input_nth: "i < CMD_BUF_SZ \<Longrightarrow> long_input ! i = CHR ''a''"
  by (simp add: long_input_def nth_append)

lemma help_line_no_crlf:
  "\<forall>i. Suc i < length ''help'' + 1 \<longrightarrow>
       \<not> ((''help'' @ [CR]) ! i = CR \<and> (''help'' @ [CR]) ! Suc i = LF)"
  by (auto simp add: less_Suc_eq CR_def LF_def)

theorem read_overflow_recovered_witness:
  "hal_send_to_host echo_shell_env (CRLF @ ''> '') = CBL_ERR_OK \<and>
   hal_recv_from_host_start echo_shell_env 0 = CBL_ERR_OK \<and>
   CMD_BUF_SZ \<le> length (rx (lnk (shell_in STATE_OPER CBL_ERR_OK (idle_link long_input)))) \<and>
   CR \<notin> set (take CMD_BUF_SZ long_input) \<and>
   state (shell_in STATE_OPER CBL_ERR_OK (idle_link long_input)) = STATE_OPER \<and>
   wait_for_cmd (hal_env.truncate echo_shell_env) (replicate CMD_BUF_SZ NUL) CMD_BUF_SZ
       (idle_link long_input) =
     Some (CBL_ERR_READ_OF, replicate CMD_BUF_SZ (CHR ''a''),
           \<lparr>rx = ''help'' @ CRLF, sent = [UART_Tx (CRLF @ ''> '')], gIsExitReq = False\<rparr>) \<and>
   (\<exists>s1 s2 s3.
      shell_pass echo_shell_env (shell_in STATE_OPER CBL_ERR_OK (idle_link long_input))
        = Continue s1 \<and>
      state s1 = STATE_ERR \<and> eCode s1 = CBL_ERR_READ_OF \<and>
      shell_pass echo_shell_env s1 = Continue s2 \<and>
      state s2 = STATE_OPER \<and> eCode s2 = CBL_ERR_OK \<and>
      rx (lnk s2) = ''help'' @ CRLF \<and>
      shell_pass echo_shell_env s2 = Continue s3 \<and>
      state s3 = STATE_OPER \<and> eCode s3 = CBL_ERR_OK \<and>
      rx (lnk s3) = [] \<and>
      sent (lnk s3) =
        [LED_ON LED_READY, UART_Tx (CRLF @ ''> ''),
         LED_OFF LED_MEMORY, LED_OFF LED_READY, LED_OFF LED_BUSY,
         UART_Tx (CRLF @ ''ERROR: Command too long'' @ CRLF),
         LED_ON LED_READY, UART_Tx (CRLF @ ''> ''), LED_OFF LED_READY, LED_ON LED_BUSY,
         UART_Tx ''help'', LED_OFF LED_BUSY])"
proof -
  let ?s = "shell_in STATE_OPER CBL_ERR_OK (idle_link long_input)"
  let ?B = "''help'' @ [NUL, LF] @ replicate (CMD_BUF_SZ - (length ''help'' + 2)) NUL"
  have lnk: "lnk (shell_in st e w) = w" and rx: "rx (idle_link input) = input" for st e w input
    by (simp_all add: shell_in_def idle_link_def)
  have h1: "hal_send_to_host echo_shell_env (CRLF @ ''> '') = CBL_ERR_OK"
    by (simp add: echo_shell_env_def)
  have h2: "\<forall>i < CMD_BUF_SZ. hal_recv_from_host_start echo_shell_env i = CBL_ERR_OK"
    by (simp add: echo_shell_env_def)
  have h3: "CMD_BUF_SZ \<le> length (rx (lnk ?s))"
    by (simp add: lnk rx long_input_def)
  have h4: "\<forall>i. Suc i < CMD_BUF_SZ \<longrightarrow> \<not> (rx (lnk ?s) ! i = CR \<and> rx (lnk ?s) ! Suc i = LF)"
    by (simp add: lnk rx long_input_nth CR_def)
  have h5: "state ?s = STATE_OPER"
    by (simp add: shell_in_def)
  note inst = read_overflow_recovered [OF h1 h2 h3 h4 h5]
  have "wait_for_cmd (hal_env.truncate echo_shell_env) (replicate CMD_BUF_SZ NUL) CMD_BUF_SZ
       (lnk ?s) =
       Some (CBL_ERR_READ_OF, take CMD_BUF_SZ (rx (lnk ?s)),
             (emit [UART_Tx (CRLF @ ''> '')] (lnk ?s))\<lparr>rx := drop CMD_BUF_SZ (rx (lnk ?s))\<rparr>)"
    by (rule inst [THEN conjunct1])
  then have c6: "wait_for_cmd (hal_env.truncate echo_shell_env) (replicate CMD_BUF_SZ NUL) CMD_BUF_SZ
       (idle_link long_input) =
     Some (CBL_ERR_READ_OF, replicate CMD_BUF_SZ (CHR ''a''),
           \<lparr>rx = ''help'' @ CRLF, sent = [UART_Tx (CRLF @ ''> '')], gIsExitReq = False\<rparr>)"
    by (simp add: lnk rx long_input_def emit_def idle_link_def)
  have c2: "hal_recv_from_host_start echo_shell_env 0 = CBL_ERR_OK"
    by (simp add: echo_shell_env_def)
  have c4: "CR \<notin> set (take CMD_BUF_SZ long_input)"
    by (simp add: long_input_def CR_def)
  have dr: "drop CMD_BUF_SZ (rx (lnk ?s)) = ''help'' @ [CR, LF] @ []"
    by (simp add: lnk rx long_input_def CRLF_def)
  have len: "length ''help'' + 2 \<le> CMD_BUF_SZ"
    by (simp add: CMD_BUF_SZ_def)
  have sent0: "sent (lnk ?s) = []"
    by (simp add: shell_in_def idle_link_def)
  from inst [THEN conjunct2, THEN conjunct2]
  obtain s1 s2 where
    p1: "shell_pass echo_shell_env ?s = Continue s1"
      "state s1 = STATE_ERR" "eCode s1 = CBL_ERR_READ_OF"
    and p2: "shell_pass echo_shell_env s1 = Continue s2"
      "state s2 = STATE_OPER" "eCode s2 = CBL_ERR_OK"
    and rx2: "rx (lnk s2) = drop CMD_BUF_SZ (rx (lnk ?s))"
    and ex2: "gIsExitReq (lnk s2) = gIsExitReq (lnk ?s)"
    and sent2: "sent (lnk s2) = sent (lnk ?s) @
           [LED_ON LED_READY, UART_Tx (CRLF @ ''> ''),
            LED_OFF LED_MEMORY, LED_OFF LED_READY, LED_OFF LED_BUSY,
            UART_Tx (CRLF @ ''ERROR: Command too long'' @ CRLF)]"
    and third: "\<forall>l rest.
            drop CMD_BUF_SZ (rx (lnk ?s)) = l @ [CR, LF] @ rest \<longrightarrow>
            length l + 2 \<le> CMD_BUF_SZ \<longrightarrow>
            (\<forall>i. Suc i < length l + 1 \<longrightarrow>
                 \<not> ((l @ [CR]) ! i = CR \<and> (l @ [CR]) ! Suc i = LF)) \<longrightarrow>
            wait_for_cmd (hal_env.truncate echo_shell_env) (replicate CMD_BUF_SZ NUL) CMD_BUF_SZ
                (emit [LED_ON LED_READY] (lnk s2)) =
              Some (CBL_ERR_OK, l @ [NUL, LF] @ replicate (CMD_BUF_SZ - (length l + 2)) NUL,
                    (emit [LED_ON LED_READY, UART_Tx (CRLF @ ''> '')] (lnk s2))\<lparr>rx := rest\<rparr>) \<and>
            sys_state_operation echo_shell_env (lnk s2) =
              (case CBL_process_cmd echo_shell_env
                      (l @ [NUL, LF] @ replicate (CMD_BUF_SZ - (length l + 2)) NUL)
                      (strlen (l @ [NUL, LF] @ replicate (CMD_BUF_SZ - (length l + 2)) NUL) 0)
                      ((emit [LED_ON LED_READY, UART_Tx (CRLF @ ''> ''), LED_OFF LED_READY,
                              LED_ON LED_BUSY] (lnk s2))\<lparr>rx := rest\<rparr>) of
                 None \<Rightarrow> None
               | Some (e2, w2) \<Rightarrow> Some (e2, emit [LED_OFF LED_BUSY] w2)) \<and>
            shell_pass echo_shell_env s2 =
              (case CBL_process_cmd echo_shell_env
                      (l @ [NUL, LF] @ replicate (CMD_BUF_SZ - (length l + 2)) NUL)
                      (strlen (l @ [NUL, LF] @ replicate (CMD_BUF_SZ - (length l + 2)) NUL) 0)
                      ((emit [LED_ON LED_READY, UART_Tx (CRLF @ ''> ''), LED_OFF LED_READY,
                              LED_ON LED_BUSY] (lnk s2))\<lparr>rx := rest\<rparr>) of
                 None \<Rightarrow> Blocked
               | Some (e2, w2) \<Rightarrow>
                   Continue (s2\<lparr>state := (if e2 \<noteq> CBL_ERR_OK then STATE_ERR
                                          else if gIsExitReq w2 then STATE_EXIT
                                          else STATE_OPER),
                               nextState := (if e2 \<noteq> CBL_ERR_OK then STATE_ERR
                                          else if gIsExitReq w2 then STATE_EXIT
                                          else STATE_OPER),
                               eCode := e2, lnk := emit [LED_OFF LED_BUSY] w2\<rparr>)) \<and>
            (NUL \<notin> set l \<longrightarrow>
               c_str (l @ [NUL, LF] @ replicate (CMD_BUF_SZ - (length l + 2)) NUL) 0 = l)"
    by blast
  have ex0: "gIsExitReq (lnk ?s) = False"
    by (simp add: shell_in_def idle_link_def)
  from third [rule_format, OF dr len help_line_no_crlf [rule_format], THEN conjunct2, THEN conjunct2,
      THEN conjunct1]
  have p3: "shell_pass echo_shell_env s2 =
     Continue (s2\<lparr>state := STATE_OPER, nextState := STATE_OPER, eCode := CBL_ERR_OK,
        lnk := emit [LED_OFF LED_BUSY] (emit [UART_Tx (take (strlen ?B 0) ?B)]
          ((emit [LED_ON LED_READY, UART_Tx (CRLF @ ''> ''), LED_OFF LED_READY,
                              LED_ON LED_BUSY] (lnk s2))\<lparr>rx := []\<rparr>))\<rparr>)"
    by (simp add: echo_shell_env_def emit_def ex0 ex2)
  have "\<exists>s3. shell_pass echo_shell_env s2 = Continue s3 \<and>
      state s3 = STATE_OPER \<and> eCode s3 = CBL_ERR_OK \<and>
      rx (lnk s3) = [] \<and>
      sent (lnk s3) =
        [LED_ON LED_READY, UART_Tx (CRLF @ ''> ''),
         LED_OFF LED_MEMORY, LED_OFF LED_READY, LED_OFF LED_BUSY,
         UART_Tx (CRLF @ ''ERROR: Command too long'' @ CRLF),
         LED_ON LED_READY, UART_Tx (CRLF @ ''> ''), LED_OFF LED_READY, LED_ON LED_BUSY,
         UART_Tx ''help'', LED_OFF LED_BUSY]"
    by (simp add: p3 emit_def sent2 sent0 strlen_def c_str_def NUL_def)
  then have c7: "\<exists>s1 s2 s3.
      shell_pass echo_shell_env ?s = Continue s1 \<and>
      state s1 = STATE_ERR \<and> eCode s1 = CBL_ERR_READ_OF \<and>
      shell_pass echo_shell_env s1 = Continue s2 \<and>
      state s2 = STATE_OPER \<and> eCode s2 = CBL_ERR_OK \<and>
      rx (lnk s2) = ''help'' @ CRLF \<and>
      shell_pass echo_shell_env s2 = Continue s3 \<and>
      state s3 = STATE_OPER \<and> eCode s3 = CBL_ERR_OK \<and>
      rx (lnk s3) = [] \<and>
      sent (lnk s3) =
        [LED_ON LED_READY, UART_Tx (CRLF @ ''> ''),
         LED_OFF LED_MEMORY, LED_OFF LED_READY, LED_OFF LED_BUSY,
         UART_Tx (CRLF @ ''ERROR: Command too long'' @ CRLF),
         LED_ON LED_READY, UART_Tx (CRLF @ ''> ''), LED_OFF LED_READY, LED_ON LED_BUSY,
         UART_Tx ''help'', LED_OFF LED_BUSY]"
    using p1 p2 rx2 [unfolded dr] by (auto simp add: CRLF_def)
  show ?thesis
    using h1 c2 h3 c4 h5 c6 c7 by (intro conjI)
qed


section \<open>Tokens without an equals sign\<close>

text \<open>
  C6. On the line \<open>cmd a b=1\<close> the token \<open>a\<close> holds no \<open>=\<close>. \<open>cbl_ParseCmd\<close>
  does not stop at it: \<open>memchr\<close> looks for \<open>=\<close> up to the end of the line and finds
  the one of the next token, so one argument is recorded, with the name \<open>a b\<close> and the
  value \<open>1\<close>.
\<close>

theorem parse_token_without_equals_merged:
  "numOfArgs (parse_line ''cmd a b=1'') = 1 \<and>
   parsed_args (parse_line ''cmd a b=1'') = [(''a b'', ''1'')]"
  by (simp add: parse_eval parsed_args_def c_str_def)

text \<open>The scan does stop when no \<open>=\<close> is left in the rest of the line.\<close>

lemma parse_stops_without_equals:
  "parsed_args (parse_line ''cmd a=1 b c'') = [(''a'', ''1'')]"
  by (simp add: parse_eval parsed_args_def c_str_def)

section \<open>The parameters of update-new\<close>

text \<open>
  C7. On a command with a valid \<open>count\<close> and \<open>type\<close> and without the key \<open>cksum\<close>,
  \<open>update_new_get_params\<close> passes the NULL of the failed lookup to \<open>strlen\<close>: no
  parameters come back, and the handler ends there, before the staging sectors are
  erased.
\<close>

theorem update_new_missing_cksum_null:
  "update_new_get_params (staging_env CBL_ERR_OK) [(''count'', ''16''), (''type'', ''bin'')]
     = Null_Dereference \<and>
   cmd_update_new (staging_env CBL_ERR_OK) [(''count'', ''16''), (''type'', ''bin'')] first_boot
     = (Undefined_Behaviour, first_boot)"
  by (simp add: cmd_update_new_def update_new_get_params_def staging_env_def strtoul_eval)

text \<open>The same for every environment: a count that is accepted and no \<open>cksum\<close>.\<close>

lemma update_new_no_null_check:
  assumes "parser_get_val env p (TXT_PAR_UP_NEW_COUNT env) (length (TXT_PAR_UP_NEW_COUNT env))
             = Some c"
    and "str2ui32 env c (length c) 10 = (CBL_ERR_OK, n)"
    and "n \<le> BOOT_NEW_APP_MAX_LEN env"
    and "parser_get_val env p (TXT_PAR_CKSUM env) (length (TXT_PAR_CKSUM env)) = None"
  shows "update_new_get_params env p = Null_Dereference"
  using assms by (simp add: update_new_get_params_def)

text \<open>With \<open>cksum=no\<close> the same command stages the application and restarts.\<close>

lemma update_new_with_cksum:
  "cmd_update_new (staging_env CBL_ERR_OK)
      [(''count'', ''16''), (''cksum'', ''no''), (''type'', ''bin'')] first_boot
     = (Restarted,
        \<lparr>boot_record = \<lparr>act_app = no_app, new_app = no_app\<lparr>app_len := 16\<rparr>,
                         is_new_app_ready = True\<rparr>,
         trace = [FLASH_Erase_New_App, FLASH_Write_New_App 16 CKSUM_NO, BOOT_Record_Get,
                  BOOT_Record_Set \<lparr>act_app = no_app, new_app = no_app\<lparr>app_len := 16\<rparr>,
                                   is_new_app_ready = True\<rparr>,
                  UART_Tx (CRLF @ ''OK'' @ CRLF), UART_Tx restart_msg, SYSTEM_Restart]\<rparr>)"
  by (simp add: cmd_update_new_def update_new_get_params_def staging_env_def strtoul_eval
      first_boot_def record_events_def no_app_def)

section \<open>Failures of update-new and the Boot Record\<close>

text \<open>
  When \<open>hal_send_to_host\<close> fails, the handler returns \<open>CBL_ERR_HAL_TX\<close> after
  \<open>boot_record_set\<close> has stored the record with \<open>is_new_app_ready\<close> set: an error
  return with the Boot Record changed.
\<close>

theorem update_new_error_after_record_set:
  "cmd_update_new (staging_env CBL_ERR_HAL_TX)
      [(''count'', ''16''), (''cksum'', ''no''), (''type'', ''bin'')] first_boot
     = (Returned CBL_ERR_HAL_TX,
        \<lparr>boot_record = \<lparr>act_app = no_app, new_app = no_app\<lparr>app_len := 16\<rparr>,
                         is_new_app_ready = True\<rparr>,
         trace = [FLASH_Erase_New_App, FLASH_Write_New_App 16 CKSUM_NO, BOOT_Record_Get,
                  BOOT_Record_Set \<lparr>act_app = no_app, new_app = no_app\<lparr>app_len := 16\<rparr>,
                                   is_new_app_ready = True\<rparr>,
                  UART_Tx (CRLF @ ''OK'' @ CRLF)]\<rparr>) \<and>
   boot_record first_boot
     = \<lparr>act_app = no_app, new_app = no_app, is_new_app_ready = False\<rparr>"
  by (simp add: cmd_update_new_def update_new_get_params_def staging_env_def strtoul_eval
      first_boot_def record_events_def no_app_def)

lemma get_params_error_not_ok:
  "update_new_get_params env p = Error e \<Longrightarrow> e \<noteq> CBL_ERR_OK"
  by (auto simp: update_new_get_params_def Let_def split: option.splits prod.splits if_splits)

text \<open>
  C1, as amended. A run of \<open>cmd_update_new\<close> in which the extraction of the parameters
  fails (a count above \<open>BOOT_NEW_APP_MAX_LEN\<close> gives \<open>CBL_ERR_NEW_APP_LEN\<close> there),
  or erasing the staging sectors fails, or \<open>flash_write\<close> fails, returns that error
  with the stored Boot Record as it was and without a call of \<open>boot_record_get\<close> or
  \<open>boot_record_set\<close>: only the erase and write events are added to the trace. When
  these three steps succeed, \<open>boot_record_set\<close> is called with the new record.
\<close>

theorem update_new_early_failure_keeps_record:
  "(\<forall>e. update_new_get_params env p = Error e \<longrightarrow>
        e \<noteq> CBL_ERR_OK \<and> cmd_update_new env p s = (Returned e, s)) \<and>
   (\<forall>c n. parser_get_val env p (TXT_PAR_UP_NEW_COUNT env) (length (TXT_PAR_UP_NEW_COUNT env))
            = Some c \<longrightarrow>
          str2ui32 env c (length c) 10 = (CBL_ERR_OK, n) \<longrightarrow>
          BOOT_NEW_APP_MAX_LEN env < n \<longrightarrow>
          cmd_update_new env p s = (Returned CBL_ERR_NEW_APP_LEN, s)) \<and>
   (\<forall>n k a. update_new_get_params env p = Done (n, k, a) \<longrightarrow>
          hal_flash_erase_sector env \<noteq> CBL_ERR_OK \<longrightarrow>
          cmd_update_new env p s =
            (Returned (hal_flash_erase_sector env),
             s\<lparr>trace := trace s @ [FLASH_Erase_New_App]\<rparr>)) \<and>
   (\<forall>n k a. update_new_get_params env p = Done (n, k, a) \<longrightarrow>
          hal_flash_erase_sector env = CBL_ERR_OK \<longrightarrow>
          flash_write env n k \<noteq> CBL_ERR_OK \<longrightarrow>
          cmd_update_new env p s =
            (Returned (flash_write env n k),
             s\<lparr>trace := trace s @ [FLASH_Erase_New_App, FLASH_Write_New_App n k]\<rparr>)) \<and>
   (\<forall>n k a. update_new_get_params env p = Done (n, k, a) \<longrightarrow>
          hal_flash_erase_sector env = CBL_ERR_OK \<longrightarrow>
          flash_write env n k = CBL_ERR_OK \<longrightarrow>
          BOOT_Record_Set
            ((boot_record s)\<lparr>new_app := (new_app (boot_record s))
                                 \<lparr>app_type := a, cksum_used := k, app_len := n\<rparr>,
                             is_new_app_ready := True\<rparr>)
            \<in> set (trace (snd (cmd_update_new env p s))))"
proof (intro conjI allI impI)
  fix e assume "update_new_get_params env p = Error e"
  then show "e \<noteq> CBL_ERR_OK" by (rule get_params_error_not_ok)
next
  fix e assume "update_new_get_params env p = Error e"
  then show "cmd_update_new env p s = (Returned e, s)"
    by (simp add: cmd_update_new_def)
next
  fix c n
  assume "parser_get_val env p (TXT_PAR_UP_NEW_COUNT env) (length (TXT_PAR_UP_NEW_COUNT env))
            = Some c"
    "str2ui32 env c (length c) 10 = (CBL_ERR_OK, n)" "BOOT_NEW_APP_MAX_LEN env < n"
  then have "update_new_get_params env p = Error CBL_ERR_NEW_APP_LEN"
    by (simp add: update_new_get_params_def)
  then show "cmd_update_new env p s = (Returned CBL_ERR_NEW_APP_LEN, s)"
    by (simp add: cmd_update_new_def)
next
  fix n k a
  assume "update_new_get_params env p = Done (n, k, a)" "hal_flash_erase_sector env \<noteq> CBL_ERR_OK"
  then show "cmd_update_new env p s =
            (Returned (hal_flash_erase_sector env), s\<lparr>trace := trace s @ [FLASH_Erase_New_App]\<rparr>)"
    by (simp add: cmd_update_new_def record_events_def)
next
  fix n k a
  assume "update_new_get_params env p = Done (n, k, a)" "hal_flash_erase_sector env = CBL_ERR_OK"
    "flash_write env n k \<noteq> CBL_ERR_OK"
  then show "cmd_update_new env p s =
            (Returned (flash_write env n k),
             s\<lparr>trace := trace s @ [FLASH_Erase_New_App, FLASH_Write_New_App n k]\<rparr>)"
    by (simp add: cmd_update_new_def record_events_def)
next
  fix n k a
  assume "update_new_get_params env p = Done (n, k, a)" "hal_flash_erase_sector env = CBL_ERR_OK"
    "flash_write env n k = CBL_ERR_OK"
  then show "BOOT_Record_Set
            ((boot_record s)\<lparr>new_app := (new_app (boot_record s))
                                 \<lparr>app_type := a, cksum_used := k, app_len := n\<rparr>,
                             is_new_app_ready := True\<rparr>)
            \<in> set (trace (snd (cmd_update_new env p s)))"
    by (simp add: cmd_update_new_def record_events_def Let_def split: prod.splits)
qed

theorem update_new_early_failure_keeps_record_witness:
  "parser_get_val (staging_env CBL_ERR_OK) [(''count'', ''2048''), (''type'', ''bin'')]
       (TXT_PAR_UP_NEW_COUNT (staging_env CBL_ERR_OK))
       (length (TXT_PAR_UP_NEW_COUNT (staging_env CBL_ERR_OK))) = Some ''2048'' \<and>
   str2ui32 (staging_env CBL_ERR_OK) ''2048'' (length ''2048'') 10 = (CBL_ERR_OK, 2048) \<and>
   BOOT_NEW_APP_MAX_LEN (staging_env CBL_ERR_OK) < 2048 \<and>
   cmd_update_new (staging_env CBL_ERR_OK) [(''count'', ''2048''), (''type'', ''bin'')] first_boot
     = (Returned CBL_ERR_NEW_APP_LEN, first_boot) \<and>
   update_new_get_params ((staging_env CBL_ERR_OK)\<lparr>hal_flash_erase_sector := CBL_ERR_HAL_ERASE\<rparr>)
       [(''count'', ''16''), (''cksum'', ''crc32''), (''type'', ''hex'')]
     = Done (16, CKSUM_CRC, APP_TYPE_HEX) \<and>
   hal_flash_erase_sector ((staging_env CBL_ERR_OK)\<lparr>hal_flash_erase_sector := CBL_ERR_HAL_ERASE\<rparr>)
     \<noteq> CBL_ERR_OK \<and>
   cmd_update_new ((staging_env CBL_ERR_OK)\<lparr>hal_flash_erase_sector := CBL_ERR_HAL_ERASE\<rparr>)
       [(''count'', ''16''), (''cksum'', ''crc32''), (''type'', ''hex'')] first_boot
     = (Returned CBL_ERR_HAL_ERASE, first_boot\<lparr>trace := [FLASH_Erase_New_App]\<rparr>)"
proof -
  let ?E = "staging_env CBL_ERR_OK"
  let ?F = "(staging_env CBL_ERR_OK)\<lparr>hal_flash_erase_sector := CBL_ERR_HAL_ERASE\<rparr>"
  have h1: "parser_get_val ?E [(''count'', ''2048''), (''type'', ''bin'')]
       (TXT_PAR_UP_NEW_COUNT ?E) (length (TXT_PAR_UP_NEW_COUNT ?E)) = Some ''2048''"
    by (simp add: staging_env_def)
  have h2: "str2ui32 ?E ''2048'' (length ''2048'') 10 = (CBL_ERR_OK, 2048)"
    by (simp add: staging_env_def strtoul_eval)
  have h3: "BOOT_NEW_APP_MAX_LEN ?E < 2048"
    by (simp add: staging_env_def)
  have long: "cmd_update_new ?E [(''count'', ''2048''), (''type'', ''bin'')] first_boot
     = (Returned CBL_ERR_NEW_APP_LEN, first_boot)"
    by (rule update_new_early_failure_keeps_record
        [THEN conjunct2, THEN conjunct1, rule_format, OF h1 h2 h3])
  have h4: "update_new_get_params ?F [(''count'', ''16''), (''cksum'', ''crc32''), (''type'', ''hex'')]
     = Done (16, CKSUM_CRC, APP_TYPE_HEX)"
    by (simp add: update_new_get_params_def staging_env_def strtoul_eval)
  have h5: "hal_flash_erase_sector ?F \<noteq> CBL_ERR_OK"
    by simp
  have "cmd_update_new ?F [(''count'', ''16''), (''cksum'', ''crc32''), (''type'', ''hex'')]
       first_boot
     = (Returned (hal_flash_erase_sector ?F),
        first_boot\<lparr>trace := trace first_boot @ [FLASH_Erase_New_App]\<rparr>)"
    by (rule update_new_early_failure_keeps_record
        [THEN conjunct2, THEN conjunct2, THEN conjunct1, rule_format, OF h4 h5])
  then have erase: "cmd_update_new ?F
       [(''count'', ''16''), (''cksum'', ''crc32''), (''type'', ''hex'')] first_boot
     = (Returned CBL_ERR_HAL_ERASE, first_boot\<lparr>trace := [FLASH_Erase_New_App]\<rparr>)"
    by (simp add: first_boot_def)
  from h1 h2 h3 long h4 h5 erase show ?thesis
    by (intro conjI)
qed

end
